theory Spec2Isabelle
  imports Complex_Main
begin

section \<open>Conventions of the embedding\<close>

text \<open>
  The optimizer is Python. Its \<open>float\<close> values are modelled as \<^typ>\<open>real\<close> (exact
  arithmetic, no NaN and no infinities), its unbounded \<open>int\<close> as \<^typ>\<open>int\<close>, and
  \<open>str\<close> as \<^typ>\<open>string\<close>. A function that can raise returns \<open>py_error + 'a\<close>, with
  \<open>Inl\<close> for the exception.
\<close>

datatype py_error = ValueError | ZeroDivisionError | ValidationError

text \<open>Python's \<open>round(x)\<close> on a float: to the nearest integer, ties to the even one.\<close>

definition py_round :: "real \<Rightarrow> int" where
  "py_round x =
     (let f = \<lfloor>x\<rfloor>; d = x - of_int f
      in if d < 1 / 2 then f
         else if 1 / 2 < d then f + 1
         else if even f then f else f + 1)"

text \<open>Python's \<open>int(x)\<close> on a float: truncation towards zero.\<close>

definition py_trunc :: "real \<Rightarrow> int" where
  "py_trunc x = (if 0 \<le> x then \<lfloor>x\<rfloor> else \<lceil>x\<rceil>)"

section \<open>models.py\<close>

record ResourceSpec =
  cpu_request :: string
  memory_request :: string
  cpu_limit :: string
  memory_limit :: string

record Workload =
  workload_ident :: string
  cluster_id :: string
  cluster_name :: string
  namespace :: string
  name :: string
  kind :: string
  replicas :: int
  current_resources :: ResourceSpec
  provider :: string

record MetricStats =
  avg :: real
  p50 :: real
  p95 :: real
  p99 :: real
  stat_max :: real
  stat_min :: real

record WorkloadMetrics =
  workload_id :: string
  cpu_usage :: MetricStats
  memory_usage :: MetricStats
  cpu_utilization_pct :: real
  memory_utilization_pct :: real
  sample_count :: int
  time_range_hours :: int

section \<open>optimizer/ml\_engine.py: statistics\<close>

text \<open>\<open>MLEngine._calculate_variance\<close>.\<close>

definition calculate_variance :: "MetricStats \<Rightarrow> real" where
  "calculate_variance stats =
     (if avg stats = 0 then 0
      else \<bar>if 0 < avg stats then (p95 stats - p50 stats) / avg stats else 0\<bar>)"

text \<open>
  \<open>MLEngine.detect_patterns\<close>. The dictionary it returns has five fixed keys, so it is
  a record here.
\<close>

record patterns =
  has_business_hours_pattern :: bool
  has_weekend_pattern :: bool
  has_burst_pattern :: bool
  has_steady_pattern :: bool
  recommended_scaling :: string

definition initial_patterns :: patterns where
  "initial_patterns =
     \<lparr>has_business_hours_pattern = False, has_weekend_pattern = False,
      has_burst_pattern = False, has_steady_pattern = False,
      recommended_scaling = ''none''\<rparr>"

definition detect_patterns :: "WorkloadMetrics \<Rightarrow> patterns" where
  "detect_patterns metrics =
     (let cpu_variance = calculate_variance (cpu_usage metrics);
          memory_variance = calculate_variance (memory_usage metrics);
          pats =
            (if 0.4 < cpu_variance \<or> 0.3 < memory_variance
             then initial_patterns\<lparr>has_burst_pattern := True, recommended_scaling := ''horizontal''\<rparr>
             else if cpu_variance < 0.15 \<and> memory_variance < 0.15
             then initial_patterns\<lparr>has_steady_pattern := True, recommended_scaling := ''none''\<rparr>
             else initial_patterns\<lparr>has_business_hours_pattern := True,
                    recommended_scaling := ''scheduled''\<rparr>)
      in if cpu_utilization_pct metrics < 30 \<and> memory_utilization_pct metrics < 30
         then pats\<lparr>recommended_scaling := ''downsize''\<rparr>
         else pats)"

text \<open>\<open>MLEngine.calculate_confidence\<close>.\<close>

definition calculate_confidence :: "WorkloadMetrics \<Rightarrow> string \<Rightarrow> real" where
  "calculate_confidence metrics optimization_type =
     (let c0 = 0.5;
          c1 = (if 1000 < sample_count metrics then c0 + 0.2
                else if 500 < sample_count metrics then c0 + 0.15
                else if 100 < sample_count metrics then c0 + 0.1
                else c0);
          cpu_variance = calculate_variance (cpu_usage metrics);
          memory_variance = calculate_variance (memory_usage metrics);
          avg_variance = (cpu_variance + memory_variance) / 2;
          c2 = (if avg_variance < 0.15 then c1 + 0.2
                else if avg_variance < 0.3 then c1 + 0.1
                else c1);
          c3 = (if 168 \<le> time_range_hours metrics then c2 + 0.1
                else if 72 \<le> time_range_hours metrics then c2 + 0.05
                else c2);
          c4 = (if optimization_type = ''right_sizing''
                  \<and> (cpu_utilization_pct metrics < 20 \<or> 90 < cpu_utilization_pct metrics)
                then c3 + 0.05 else c3)
      in min 1.0 c4)"

text \<open>
  \<open>MLEngine.optimize_replicas\<close>, in two parts. \<open>replica_target\<close> is the value of
  \<open>recommended_replicas\<close> when the source reaches the anti-thrash test: the scaling
  branches followed by the StatefulSet guard. The float division by
  \<open>target_utilization\<close> raises when that is zero.
\<close>

definition replica_target :: "Workload \<Rightarrow> WorkloadMetrics \<Rightarrow> real \<Rightarrow> py_error + int" where
  "replica_target workload metrics target_utilization =
     (let current_replicas = replicas workload;
          max_utilization = max (cpu_utilization_pct metrics) (memory_utilization_pct metrics);
          scaled =
            (if max_utilization < 30
             then Inr (if max_utilization < 15
                       then max 1 \<lceil>of_int current_replicas * (0.5 :: real)\<rceil>
                       else max 1 (current_replicas - 1))
             else if 85 < max_utilization
             then (if target_utilization = 0 then Inl ZeroDivisionError
                   else Inr \<lceil>of_int current_replicas
                               * (max_utilization / target_utilization)\<rceil>)
             else (if target_utilization = 0 then Inl ZeroDivisionError
                   else Inr (max 1 (py_round (of_int current_replicas
                                               * (max_utilization / target_utilization))))))
      in case scaled of
           Inl e \<Rightarrow> Inl e
         | Inr recommended_replicas \<Rightarrow>
             Inr (if kind workload = ''StatefulSet'' \<and> recommended_replicas < current_replicas
                  then current_replicas else recommended_replicas))"

definition optimize_replicas ::
  "Workload \<Rightarrow> WorkloadMetrics \<Rightarrow> real \<Rightarrow> py_error + (int \<times> real)" where
  "optimize_replicas workload metrics target_utilization =
     (let current_replicas = replicas workload
      in case replica_target workload metrics target_utilization of
           Inl e \<Rightarrow> Inl e
         | Inr recommended_replicas \<Rightarrow>
             (let confidence = calculate_confidence metrics ''replica_optimization''
              in if current_replicas = 0 then Inl ZeroDivisionError
                 else if of_int \<bar>recommended_replicas - current_replicas\<bar>
                           / of_int current_replicas < (0.15 :: real)
                 then Inr (current_replicas, confidence)
                 else Inr (recommended_replicas, confidence)))"

text \<open>\<open>MLEngine.detect_unused_resources\<close>.\<close>

definition detect_unused_resources :: "WorkloadMetrics \<Rightarrow> real \<Rightarrow> bool" where
  "detect_unused_resources metrics threshold_pct =
     (cpu_utilization_pct metrics < threshold_pct
      \<and> memory_utilization_pct metrics < threshold_pct)"

section \<open>Python built-ins used by the cost calculator\<close>

text \<open>
  \<open>float(s)\<close>, \<open>int(s)\<close> and the format \<open>f"{x:.1f}"\<close> are Python built-ins, not code of
  this repository. The model takes them as parameters: \<open>float_of_str\<close> and \<open>int_of_str\<close>
  return \<open>None\<close> where the built-in raises \<open>ValueError\<close>. Every general theorem below
  holds for all such functions.
\<close>

record py_builtins =
  float_of_str :: "string \<Rightarrow> real option"
  int_of_str :: "string \<Rightarrow> int option"
  format_1f :: "real \<Rightarrow> string"

text \<open>\<open>str(n)\<close> for an integer \<open>n\<close>, as the f-strings of the program format it.\<close>

definition digit_char :: "nat \<Rightarrow> char" where
  "digit_char d = ''0123456789'' ! d"

fun digits_of :: "nat \<Rightarrow> string" where
  "digits_of n =
     (if n < 10 then [digit_char n] else digits_of (n div 10) @ [digit_char (n mod 10)])"

declare digits_of.simps [simp del]

definition str_of_int :: "int \<Rightarrow> string" where
  "str_of_int i = (if i < 0 then CHR ''-'' # digits_of (nat (- i)) else digits_of (nat i))"

text \<open>\<open>s.endswith(suffix)\<close> and \<open>s.lower()\<close> on ASCII strings.\<close>

definition endswith :: "string \<Rightarrow> string \<Rightarrow> bool" where
  "endswith s suffix =
     (length suffix \<le> length s \<and> drop (length s - length suffix) s = suffix)"

definition ascii_lower :: "char \<Rightarrow> char" where
  "ascii_lower c =
     (case map_of (zip ''ABCDEFGHIJKLMNOPQRSTUVWXYZ'' ''abcdefghijklmnopqrstuvwxyz'') c of
        Some l \<Rightarrow> l
      | None \<Rightarrow> c)"

definition lower :: "string \<Rightarrow> string" where
  "lower s = map ascii_lower s"

section \<open>models.py: cost estimates\<close>

record CostBreakdown =
  compute :: real
  memory :: real
  storage :: real
  network :: real
  total :: real

record CostEstimate =
  hourly :: real
  daily :: real
  monthly :: real
  yearly :: real
  breakdown :: CostBreakdown

text \<open>
  The pydantic constructors: every field of both models is declared \<open>Field(ge=0)\<close>, and
  construction raises \<open>ValidationError\<close> when a field is negative.
\<close>

definition make_CostBreakdown ::
  "real \<Rightarrow> real \<Rightarrow> real \<Rightarrow> real \<Rightarrow> real \<Rightarrow> py_error + CostBreakdown" where
  "make_CostBreakdown c m s n t =
     (if 0 \<le> c \<and> 0 \<le> m \<and> 0 \<le> s \<and> 0 \<le> n \<and> 0 \<le> t
      then Inr \<lparr>compute = c, memory = m, storage = s, network = n, total = t\<rparr>
      else Inl ValidationError)"

definition make_CostEstimate ::
  "real \<Rightarrow> real \<Rightarrow> real \<Rightarrow> real \<Rightarrow> CostBreakdown \<Rightarrow> py_error + CostEstimate" where
  "make_CostEstimate h d m y b =
     (if 0 \<le> h \<and> 0 \<le> d \<and> 0 \<le> m \<and> 0 \<le> y
      then Inr \<lparr>hourly = h, daily = d, monthly = m, yearly = y, breakdown = b\<rparr>
      else Inl ValidationError)"

section \<open>optimizer/cost\_calculator.py\<close>

text \<open>\<open>CostCalculator._parse_cpu\<close>.\<close>

definition parse_cpu :: "py_builtins \<Rightarrow> string \<Rightarrow> py_error + real" where
  "parse_cpu B cpu_string =
     (if endswith cpu_string ''m''
      then (case float_of_str B (butlast cpu_string) of
              None \<Rightarrow> Inl ValueError
            | Some x \<Rightarrow> Inr (x / 1000))
      else (case float_of_str B cpu_string of
              None \<Rightarrow> Inl ValueError
            | Some x \<Rightarrow> Inr x))"

text \<open>
  \<open>CostCalculator._parse_memory\<close>: the loop over the suffix table, in the table's order,
  then \<open>int(memory_string)\<close> when no suffix matches.
\<close>

definition multipliers :: "(string \<times> int) list" where
  "multipliers =
     [(''Ki'', 1024), (''Mi'', 1024 * 1024), (''Gi'', 1024 * 1024 * 1024),
      (''K'', 1000), (''M'', 1000 * 1000), (''G'', 1000 * 1000 * 1000)]"

fun parse_memory_loop :: "py_builtins \<Rightarrow> (string \<times> int) list \<Rightarrow> string \<Rightarrow> py_error + int" where
  "parse_memory_loop B [] memory_string =
     (case int_of_str B memory_string of
        None \<Rightarrow> Inl ValueError
      | Some n \<Rightarrow> Inr n)"
| "parse_memory_loop B ((suffix, multiplier) # rest) memory_string =
     (if endswith memory_string suffix
      then (case float_of_str B (take (length memory_string - length suffix) memory_string) of
              None \<Rightarrow> Inl ValueError
            | Some x \<Rightarrow> Inr (py_trunc (x * of_int multiplier)))
      else parse_memory_loop B rest memory_string)"

definition parse_memory :: "py_builtins \<Rightarrow> string \<Rightarrow> py_error + int" where
  "parse_memory B memory_string = parse_memory_loop B multipliers memory_string"

text \<open>\<open>memory_gb = self._parse_memory(...) / (1024 ** 3)\<close>.\<close>

definition parse_memory_gb :: "py_builtins \<Rightarrow> string \<Rightarrow> py_error + real" where
  "parse_memory_gb B memory_string =
     (case parse_memory B memory_string of
        Inl e \<Rightarrow> Inl e
      | Inr n \<Rightarrow> Inr (of_int n / (1024 ^ 3)))"

text \<open>
  The breakpoint table that \<open>_infer_instance_type\<close> and
  \<open>_infer_instance_type_from_config\<close> both spell out.
\<close>

definition instance_type_for :: "string \<Rightarrow> real \<Rightarrow> real \<Rightarrow> string" where
  "instance_type_for prov cpu_cores memory_gb =
     (if prov = ''aws'' then
        (if cpu_cores \<le> 0.5 \<and> memory_gb \<le> 1 then ''t3.micro''
         else if cpu_cores \<le> 1 \<and> memory_gb \<le> 2 then ''t3.small''
         else if cpu_cores \<le> 2 \<and> memory_gb \<le> 4 then ''t3.medium''
         else if cpu_cores \<le> 2 \<and> memory_gb \<le> 8 then ''m5.large''
         else if cpu_cores \<le> 4 \<and> memory_gb \<le> 16 then ''m5.xlarge''
         else ''m5.2xlarge'')
      else if prov = ''gcp'' then
        (if cpu_cores \<le> 0.5 \<and> memory_gb \<le> 1 then ''e2-micro''
         else if cpu_cores \<le> 1 \<and> memory_gb \<le> 2 then ''e2-small''
         else if cpu_cores \<le> 2 \<and> memory_gb \<le> 4 then ''e2-medium''
         else if cpu_cores \<le> 2 \<and> memory_gb \<le> 8 then ''n2-standard-2''
         else if cpu_cores \<le> 4 \<and> memory_gb \<le> 16 then ''n2-standard-4''
         else ''n2-standard-8'')
      else
        (if cpu_cores \<le> 1 \<and> memory_gb \<le> 1 then ''B1s''
         else if cpu_cores \<le> 2 \<and> memory_gb \<le> 4 then ''B2s''
         else if cpu_cores \<le> 2 \<and> memory_gb \<le> 8 then ''Standard_D2s_v3''
         else if cpu_cores \<le> 4 \<and> memory_gb \<le> 16 then ''Standard_D4s_v3''
         else ''Standard_D8s_v3''))"

text \<open>\<open>CostCalculator._infer_instance_type\<close>.\<close>

definition infer_instance_type :: "py_builtins \<Rightarrow> Workload \<Rightarrow> string \<Rightarrow> py_error + string" where
  "infer_instance_type B workload prov =
     (case parse_cpu B (cpu_request (current_resources workload)) of
        Inl e \<Rightarrow> Inl e
      | Inr cpu_cores \<Rightarrow>
          (case parse_memory_gb B (memory_request (current_resources workload)) of
             Inl e \<Rightarrow> Inl e
           | Inr memory_gb \<Rightarrow> Inr (instance_type_for prov cpu_cores memory_gb)))"

text \<open>
  The pricing collaborator. A call either fails (no connection or timeout, an error status
  raised by \<open>raise_for_status\<close>, a body that is not the expected JSON object) or delivers
  the numbers the code reads from the payload.
\<close>

record pricing_data =
  breakdown_compute :: real
  breakdown_memory :: real
  breakdown_storage :: real
  breakdown_network :: real
  breakdown_total :: real
  pd_monthly_cost :: real
  pd_hourly_cost :: real

datatype pricing_reply =
  RequestFailed | StatusError nat | MalformedPayload | PricingData pricing_data

datatype call_error = TransportError | HTTPStatusError | PayloadError | Raised py_error

text \<open>
  The body of the \<open>try\<close> block of \<open>fetch_current_costs\<close> and
  \<open>calculate_optimized_costs\<close>, for a reply and a replica count.
\<close>

definition priced_estimate :: "pricing_reply \<Rightarrow> int \<Rightarrow> call_error + CostEstimate" where
  "priced_estimate reply reps =
     (case reply of
        RequestFailed \<Rightarrow> Inl TransportError
      | StatusError code \<Rightarrow> Inl HTTPStatusError
      | MalformedPayload \<Rightarrow> Inl PayloadError
      | PricingData pd \<Rightarrow>
          (case make_CostBreakdown (breakdown_compute pd) (breakdown_memory pd)
                  (breakdown_storage pd) (breakdown_network pd) (breakdown_total pd) of
             Inl e \<Rightarrow> Inl (Raised e)
           | Inr bd \<Rightarrow>
               (let monthly_cost = pd_monthly_cost pd * of_int reps
                in case make_CostEstimate (pd_hourly_cost pd * of_int reps) (monthly_cost / 30)
                          monthly_cost (monthly_cost * 12) bd of
                     Inl e \<Rightarrow> Inl (Raised e)
                   | Inr est \<Rightarrow> Inr est)))"

text \<open>
  The local linear model that \<open>_fallback_cost_estimate\<close> and
  \<open>_fallback_optimized_cost_estimate\<close> both compute, from the two request strings and the
  replica count.
\<close>

definition fallback_estimate ::
  "py_builtins \<Rightarrow> string \<Rightarrow> string \<Rightarrow> int \<Rightarrow> py_error + CostEstimate" where
  "fallback_estimate B cpu_string memory_string reps =
     (case parse_cpu B cpu_string of
        Inl e \<Rightarrow> Inl e
      | Inr cpu_cores \<Rightarrow>
          (case parse_memory_gb B memory_string of
             Inl e \<Rightarrow> Inl e
           | Inr memory_gb \<Rightarrow>
               (let hourly_cost = (cpu_cores * 0.04 + memory_gb * 0.005) * of_int reps;
                    monthly_cost = hourly_cost * 730
                in case make_CostBreakdown (monthly_cost * 0.7) (monthly_cost * 0.2)
                          (monthly_cost * 0.05) (monthly_cost * 0.05) monthly_cost of
                     Inl e \<Rightarrow> Inl e
                   | Inr bd \<Rightarrow>
                       make_CostEstimate hourly_cost (monthly_cost / 30) monthly_cost
                         (monthly_cost * 12) bd)))"

definition fallback_cost_estimate :: "py_builtins \<Rightarrow> Workload \<Rightarrow> py_error + CostEstimate" where
  "fallback_cost_estimate B workload =
     fallback_estimate B (cpu_request (current_resources workload))
       (memory_request (current_resources workload)) (replicas workload)"

text \<open>
  \<open>CostCalculator.fetch_current_costs\<close>. The instance type is inferred and the two request
  strings are parsed before the \<open>try\<close> block; \<open>reply\<close> is what the pricing collaborator
  answers to the request.
\<close>

definition fetch_current_costs ::
  "py_builtins \<Rightarrow> pricing_reply \<Rightarrow> Workload \<Rightarrow> string option \<Rightarrow> py_error + CostEstimate" where
  "fetch_current_costs B reply workload instance_type =
     (let prov = lower (provider workload);
          inferred =
            (case instance_type of
               None \<Rightarrow> infer_instance_type B workload prov
             | Some t \<Rightarrow> if t = [] then infer_instance_type B workload prov else Inr t)
      in case inferred of
           Inl e \<Rightarrow> Inl e
         | Inr itype \<Rightarrow>
             (case parse_cpu B (cpu_request (current_resources workload)) of
                Inl e \<Rightarrow> Inl e
              | Inr cpu_cores \<Rightarrow>
                  (case parse_memory_gb B (memory_request (current_resources workload)) of
                     Inl e \<Rightarrow> Inl e
                   | Inr memory_gb \<Rightarrow>
                       (case priced_estimate reply (replicas workload) of
                          Inr est \<Rightarrow> Inr est
                        | Inl exc \<Rightarrow> fallback_cost_estimate B workload))))"

section \<open>A concrete instance of the built-ins\<close>

text \<open>
  For the concrete examples the built-ins are instantiated on plain decimal literals: an
  optional sign, digits, and for \<open>float\<close> an optional fraction. Strings outside this
  form are rejected. Python's built-ins also reject every string rejected here that
  contains a letter other than in an exponent, \<open>inf\<close> or \<open>nan\<close>.
\<close>

definition digit_value :: "char \<Rightarrow> nat option" where
  "digit_value c = map_of (zip ''0123456789'' [0, 1, 2, 3, 4, 5, 6, 7, 8, 9]) c"

fun digits_value :: "string \<Rightarrow> nat \<Rightarrow> nat option" where
  "digits_value [] acc = Some acc"
| "digits_value (c # cs) acc =
     (case digit_value c of
        None \<Rightarrow> None
      | Some d \<Rightarrow> digits_value cs (10 * acc + d))"

definition plain_nat :: "string \<Rightarrow> nat option" where
  "plain_nat s = (if s = [] then None else digits_value s 0)"

definition plain_int :: "string \<Rightarrow> int option" where
  "plain_int s =
     (case s of
        [] \<Rightarrow> None
      | c # r \<Rightarrow>
          if c = CHR ''-'' then map_option (\<lambda>n. - int n) (plain_nat r)
          else if c = CHR ''+'' then map_option int (plain_nat r)
          else map_option int (plain_nat s))"

definition plain_unsigned_float :: "string \<Rightarrow> real option" where
  "plain_unsigned_float s =
     (let whole = takeWhile (\<lambda>c. c \<noteq> CHR ''.'') s;
          rest = dropWhile (\<lambda>c. c \<noteq> CHR ''.'') s
      in case rest of
           [] \<Rightarrow> map_option real (plain_nat whole)
         | dot # fdigits \<Rightarrow>
             if whole = [] \<and> fdigits = [] then None
             else (case (digits_value whole 0, digits_value fdigits 0) of
                     (Some a, Some b) \<Rightarrow> Some (real a + real b / 10 ^ length fdigits)
                   | _ \<Rightarrow> None))"

definition plain_float :: "string \<Rightarrow> real option" where
  "plain_float s =
     (case s of
        [] \<Rightarrow> None
      | c # r \<Rightarrow>
          if c = CHR ''-'' then map_option uminus (plain_unsigned_float r)
          else if c = CHR ''+'' then plain_unsigned_float r
          else plain_unsigned_float s)"

text \<open>\<open>f"{x:.1f}"\<close> on the exact value of \<open>x\<close>, ties to even.\<close>

definition plain_1f :: "real \<Rightarrow> string" where
  "plain_1f x =
     (let tenths = nat (py_round (\<bar>x\<bar> * 10))
      in (if x < 0 then ''-'' else [])
           @ digits_of (tenths div 10) @ ''.'' @ digits_of (tenths mod 10))"

definition plain_builtins :: py_builtins where
  "plain_builtins =
     \<lparr>float_of_str = plain_float, int_of_str = plain_int, format_1f = plain_1f\<rparr>"

section \<open>optimizer/ml\_engine.py: sizing and suitability\<close>

text \<open>\<open>MLEngine._format_cpu\<close> and \<open>MLEngine._format_memory\<close>.\<close>

definition format_cpu :: "py_builtins \<Rightarrow> real \<Rightarrow> string" where
  "format_cpu B cpu_cores =
     (if cpu_cores < 1 then str_of_int (py_trunc (cpu_cores * 1000)) @ ''m''
      else format_1f B cpu_cores)"

definition format_memory :: "int \<Rightarrow> string" where
  "format_memory memory_bytes =
     (if memory_bytes < 1024 * 1024 then str_of_int (memory_bytes div 1024) @ ''Ki''
      else if memory_bytes < 1024 * 1024 * 1024
      then str_of_int (memory_bytes div (1024 * 1024)) @ ''Mi''
      else str_of_int (memory_bytes div (1024 * 1024 * 1024)) @ ''Gi'')"

text \<open>\<open>MLEngine.right_size_resources\<close>, with \<open>safety_margin = 1.15\<close>.\<close>

definition safety_margin :: real where
  "safety_margin = 1.15"

definition right_size_resources ::
  "py_builtins \<Rightarrow> Workload \<Rightarrow> WorkloadMetrics \<Rightarrow> ResourceSpec \<times> real" where
  "right_size_resources B workload metrics =
     (let cpu_p95 = p95 (cpu_usage metrics);
          memory_p95 = p95 (memory_usage metrics);
          recommended_cpu = cpu_p95 * safety_margin;
          recommended_memory = memory_p95 * safety_margin;
          limit_cpu = recommended_cpu * 1.5;
          limit_memory = recommended_memory * 1.3;
          new_spec =
            \<lparr>cpu_request = format_cpu B recommended_cpu,
             memory_request = format_memory (py_trunc recommended_memory),
             cpu_limit = format_cpu B limit_cpu,
             memory_limit = format_memory (py_trunc limit_memory)\<rparr>
      in (new_spec, calculate_confidence metrics ''right_sizing''))"

text \<open>\<open>MLEngine.recommend_spot_instances\<close>: suitability, confidence and reason.\<close>

definition recommend_spot_instances :: "Workload \<Rightarrow> WorkloadMetrics \<Rightarrow> bool \<times> real \<times> string" where
  "recommend_spot_instances workload metrics =
     (if kind workload = ''StatefulSet'' \<or> kind workload = ''DaemonSet''
      then (False, 0.0, ''StatefulSets and DaemonSets are not suitable for spot instances'')
      else
        (let pats = detect_patterns metrics;
             after_burst =
               (if has_burst_pattern pats
                then (0.7 - 0.2,
                      ''Burst pattern detected, spot interruptions may impact performance'')
                else (0.7, []));
             after_load =
               (if 80 < cpu_utilization_pct metrics \<or> 80 < memory_utilization_pct metrics
                then (fst after_burst - 0.15,
                      ''High utilization may be impacted by spot interruptions'')
                else after_burst)
         in if replicas workload = 1
            then (False, 0.0,
                  ''Single replica workload, spot interruptions would cause downtime'')
            else (True, fst after_load,
                  if snd after_load = []
                  then ''Workload is suitable for spot instances with appropriate redundancy''
                  else snd after_load)))"

text \<open>
  \<open>MLEngine.detect_scheduled_scaling_opportunity\<close>. The dictionary has the keys
  \<open>suitable\<close>, \<open>strategy\<close> and \<open>confidence\<close>, and \<open>off_peak_scale_down\<close> only in the
  business-hours case.
\<close>

record scaling_opportunity =
  suitable :: bool
  strategy :: string
  off_peak_scale_down :: "real option"
  opportunity_confidence :: real

definition detect_scheduled_scaling_opportunity :: "WorkloadMetrics \<Rightarrow> scaling_opportunity" where
  "detect_scheduled_scaling_opportunity metrics =
     (let pats = detect_patterns metrics
      in if has_business_hours_pattern pats
         then \<lparr>suitable = True, strategy = ''business_hours'',
               off_peak_scale_down = Some 0.5, opportunity_confidence = 0.75\<rparr>
         else if has_weekend_pattern pats
         then \<lparr>suitable = True, strategy = ''weekend_reduction'',
               off_peak_scale_down = None, opportunity_confidence = 0.7\<rparr>
         else \<lparr>suitable = False, strategy = ''none'',
               off_peak_scale_down = None, opportunity_confidence = 0.0\<rparr>)"

section \<open>models.py: recommendations\<close>

datatype OptimizationType =
  RIGHT_SIZE_CPU | RIGHT_SIZE_MEMORY | REDUCE_REPLICAS | INCREASE_REPLICAS | SPOT_INSTANCES
  | CHANGE_INSTANCE_TYPE | CONSOLIDATE_NODES | MOVE_TO_CHEAPER_REGION | SCHEDULED_SCALING
  | REMOVE_UNUSED

datatype RiskLevel = LOW | MEDIUM | HIGH | CRITICAL

record RiskAssessment =
  level :: RiskLevel
  score :: real
  factors :: "string list"
  mitigation_steps :: "string list"

record RollbackPlan =
  steps :: "string list"
  estimated_time_minutes :: int
  automation_available :: bool

text \<open>
  A configuration dictionary: the five keys the cost calculator and the operator read,
  and the remaining keys in insertion order.
\<close>

datatype json_value = JStr string | JInt int

record config =
  cfg_cpu_request :: "string option"
  cfg_memory_request :: "string option"
  cfg_cpu_limit :: "string option"
  cfg_memory_limit :: "string option"
  cfg_replicas :: "int option"
  cfg_other :: "(string \<times> json_value) list"

text \<open>\<open>workload.current_resources.dict()\<close>.\<close>

definition resources_dict :: "ResourceSpec \<Rightarrow> config" where
  "resources_dict r =
     \<lparr>cfg_cpu_request = Some (cpu_request r), cfg_memory_request = Some (memory_request r),
      cfg_cpu_limit = Some (cpu_limit r), cfg_memory_limit = Some (memory_limit r),
      cfg_replicas = None, cfg_other = []\<rparr>"

text \<open>
  \<open>OptimizationRecommendation\<close>, without the fields that only carry identity and text
  (id, workload and cluster names, title, description, current_config, dependencies,
  implementation notes, status, created_at). No decision of the program reads them.
\<close>

record OptimizationRecommendation =
  optimization_type :: OptimizationType
  recommended_config :: config
  current_cost :: CostEstimate
  optimized_cost :: CostEstimate
  monthly_savings :: real
  yearly_savings :: real
  savings_percentage :: real
  confidence_score :: real
  risk_assessment :: RiskAssessment
  rollback_plan :: RollbackPlan

text \<open>
  The pydantic constructors with their field constraints: \<open>score\<close> and
  \<open>confidence_score\<close> in [0, 1], the savings not negative, the percentage in [0, 100].
\<close>

definition make_RiskAssessment ::
  "RiskLevel \<Rightarrow> real \<Rightarrow> string list \<Rightarrow> string list \<Rightarrow> py_error + RiskAssessment" where
  "make_RiskAssessment l s fs ms =
     (if 0 \<le> s \<and> s \<le> 1
      then Inr \<lparr>level = l, score = s, factors = fs, mitigation_steps = ms\<rparr>
      else Inl ValidationError)"

definition make_OptimizationRecommendation ::
  "OptimizationRecommendation \<Rightarrow> py_error + OptimizationRecommendation" where
  "make_OptimizationRecommendation r =
     (if 0 \<le> monthly_savings r \<and> 0 \<le> yearly_savings r
         \<and> 0 \<le> savings_percentage r \<and> savings_percentage r \<le> 100
         \<and> 0 \<le> confidence_score r \<and> confidence_score r \<le> 1
      then Inr r else Inl ValidationError)"

text \<open>An exception raised by one step ends the whole call.\<close>

definition and_then :: "py_error + 'a \<Rightarrow> ('a \<Rightarrow> py_error + 'b) \<Rightarrow> py_error + 'b" where
  "and_then x f = (case x of Inl e \<Rightarrow> Inl e | Inr a \<Rightarrow> f a)"

section \<open>optimizer/cost\_calculator.py: optimized costs and spot prices\<close>

text \<open>\<open>CostCalculator._infer_instance_type_from_config\<close>.\<close>

definition infer_instance_type_from_config ::
  "py_builtins \<Rightarrow> config \<Rightarrow> string \<Rightarrow> py_error + string" where
  "infer_instance_type_from_config B cfg prov =
     and_then (parse_cpu B (case cfg_cpu_request cfg of None \<Rightarrow> ''1000m'' | Some s \<Rightarrow> s))
       (\<lambda>cpu_cores.
          and_then (parse_memory_gb B
                      (case cfg_memory_request cfg of None \<Rightarrow> ''1Gi'' | Some s \<Rightarrow> s))
            (\<lambda>memory_gb. Inr (instance_type_for prov cpu_cores memory_gb)))"

text \<open>
  \<open>CostCalculator.calculate_optimized_costs\<close>; its \<open>except\<close> branch is
  \<open>_fallback_optimized_cost_estimate\<close>.
\<close>

definition calculate_optimized_costs ::
  "py_builtins \<Rightarrow> pricing_reply \<Rightarrow> Workload \<Rightarrow> config \<Rightarrow> string option
     \<Rightarrow> py_error + CostEstimate" where
  "calculate_optimized_costs B reply workload cfg instance_type =
     (let prov = lower (provider workload);
          inferred =
            (case instance_type of
               None \<Rightarrow> infer_instance_type_from_config B cfg prov
             | Some t \<Rightarrow> if t = [] then infer_instance_type_from_config B cfg prov else Inr t);
          cpu_string =
            (case cfg_cpu_request cfg of
               None \<Rightarrow> cpu_request (current_resources workload) | Some s \<Rightarrow> s);
          memory_string =
            (case cfg_memory_request cfg of
               None \<Rightarrow> memory_request (current_resources workload) | Some s \<Rightarrow> s);
          reps = (case cfg_replicas cfg of None \<Rightarrow> replicas workload | Some n \<Rightarrow> n)
      in and_then inferred
           (\<lambda>itype.
              and_then (parse_cpu B cpu_string)
                (\<lambda>cpu_cores.
                   and_then (parse_memory_gb B memory_string)
                     (\<lambda>memory_gb.
                        case priced_estimate reply reps of
                          Inr est \<Rightarrow> Inr est
                        | Inl exc \<Rightarrow> fallback_estimate B cpu_string memory_string reps))))"

text \<open>
  The spot-price collaborator answers with a list of price entries, or the call fails
  (or an entry lacks a key the code reads, which raises inside the \<open>try\<close> block too).
\<close>

record spot_price_entry =
  entry_instance_type :: string
  on_demand_price :: real
  spot_price :: real
  entry_discount_percentage :: real

datatype spot_reply = SpotRequestFailed | SpotPrices "spot_price_entry list"

record spot_summary =
  on_demand_monthly :: real
  spot_monthly :: real
  summary_monthly_savings :: real
  summary_savings_percentage :: real
  discount_percentage :: real

definition zero_summary :: spot_summary where
  "zero_summary =
     \<lparr>on_demand_monthly = 0, spot_monthly = 0, summary_monthly_savings = 0,
      summary_savings_percentage = 0, discount_percentage = 0\<rparr>"

text \<open>\<open>CostCalculator.spot_vs_ondemand\<close>.\<close>

definition spot_vs_ondemand ::
  "py_builtins \<Rightarrow> spot_reply \<Rightarrow> Workload \<Rightarrow> string option \<Rightarrow> py_error + spot_summary" where
  "spot_vs_ondemand B reply workload instance_type =
     (let prov = lower (provider workload);
          inferred =
            (case instance_type of
               None \<Rightarrow> infer_instance_type B workload prov
             | Some t \<Rightarrow> if t = [] then infer_instance_type B workload prov else Inr t)
      in and_then inferred
           (\<lambda>itype.
              case reply of
                SpotRequestFailed \<Rightarrow> Inr zero_summary
              | SpotPrices prices \<Rightarrow>
                  (case filter (\<lambda>p. entry_instance_type p = itype) prices of
                     [] \<Rightarrow> Inr zero_summary
                   | p # others \<Rightarrow>
                       (let od_monthly = on_demand_price p * 730 * of_int (replicas workload);
                            sp_monthly = spot_price p * 730 * of_int (replicas workload);
                            savings = od_monthly - sp_monthly
                        in Inr \<lparr>on_demand_monthly = od_monthly, spot_monthly = sp_monthly,
                                summary_monthly_savings = savings,
                                summary_savings_percentage =
                                  (if 0 < od_monthly then savings / od_monthly * 100 else 0),
                                discount_percentage = entry_discount_percentage p\<rparr>))))"

section \<open>optimizer/recommender.py\<close>

text \<open>\<open>Recommender.assess_risk\<close>.\<close>

definition assess_risk ::
  "Workload \<Rightarrow> OptimizationType \<Rightarrow> WorkloadMetrics option \<Rightarrow> py_error + RiskAssessment" where
  "assess_risk workload opt_type metrics =
     (let stateful = (kind workload = ''StatefulSet'');
          single = (replicas workload = 1);
          loaded =
            ((opt_type = REDUCE_REPLICAS \<or> opt_type = RIGHT_SIZE_CPU)
             \<and> (case metrics of None \<Rightarrow> False | Some m \<Rightarrow> 80 < cpu_utilization_pct m));
          spot = (opt_type = SPOT_INSTANCES);
          score1 = (if stateful then 0.3 + 0.2 else 0.3);
          score2 = (if single then score1 + 0.15 else score1);
          score3 = (if loaded then score2 + 0.2 else score2);
          risk_score = (if spot then 0.5 else score3);
          risk_factors =
            (if stateful then [''StatefulSet requires careful handling''] else [])
            @ (if single then [''Single replica - no redundancy''] else [])
            @ (if loaded then [''High CPU utilization''] else [])
            @ (if spot then [''Spot instances can be interrupted''] else []);
          mitigations =
            (if stateful then [''Test in staging environment first''] else [])
            @ (if single then [''Consider increasing replicas before optimization''] else [])
            @ (if loaded then [''Monitor performance closely after change''] else [])
            @ (if spot then [''Ensure application handles interruptions gracefully'',
                             ''Maintain on-demand fallback capacity''] else []);
          risk_level =
            (if 0.7 \<le> risk_score then HIGH
             else if 0.5 \<le> risk_score then MEDIUM
             else LOW)
      in make_RiskAssessment risk_level (min 1.0 risk_score)
           (if risk_factors = [] then [''Standard optimization''] else risk_factors)
           (if mitigations = [] then [''Follow standard deployment procedures'']
            else mitigations))"

text \<open>\<open>Recommender.create_rollback_plan\<close>.\<close>

definition create_rollback_plan :: "Workload \<Rightarrow> OptimizationType \<Rightarrow> RollbackPlan" where
  "create_rollback_plan workload opt_type =
     (if opt_type = RIGHT_SIZE_CPU \<or> opt_type = RIGHT_SIZE_MEMORY
      then \<lparr>steps = [''Restore original resource requests: ''
                       @ cpu_request (current_resources workload) @ '' CPU, ''
                       @ memory_request (current_resources workload) @ '' memory'',
                     ''Apply updated manifest'', ''Verify pod stability''],
            estimated_time_minutes = 5, automation_available = True\<rparr>
      else if opt_type = REDUCE_REPLICAS \<or> opt_type = INCREASE_REPLICAS
      then \<lparr>steps = [''Scale back to '' @ str_of_int (replicas workload) @ '' replicas'',
                     ''Verify all pods are running''],
            estimated_time_minutes = 2, automation_available = True\<rparr>
      else if opt_type = SPOT_INSTANCES
      then \<lparr>steps = [''Switch back to on-demand instances'',
                     ''Verify application availability'', ''Monitor for stability''],
            estimated_time_minutes = 10, automation_available = True\<rparr>
      else if opt_type = SCHEDULED_SCALING
      then \<lparr>steps = [''Remove HorizontalPodAutoscaler or CronJob'',
                     ''Set replicas to constant '' @ str_of_int (replicas workload)],
            estimated_time_minutes = 5, automation_available = True\<rparr>
      else \<lparr>steps = [''Revert to previous configuration'', ''Verify workload health''],
            estimated_time_minutes = 5, automation_available = True\<rparr>)"

text \<open>The expression for \<open>savings_percentage\<close> that four of the five builders share.\<close>

definition savings_percent :: "real \<Rightarrow> CostEstimate \<Rightarrow> real" where
  "savings_percent savings cur =
     (if 0 < monthly cur then savings / monthly cur * 100 else 0)"

text \<open>\<open>Recommender._create_right_sizing_recommendation\<close>.\<close>

definition create_right_sizing_recommendation ::
  "py_builtins \<Rightarrow> pricing_reply \<Rightarrow> Workload \<Rightarrow> WorkloadMetrics \<Rightarrow> CostEstimate
     \<Rightarrow> py_error + OptimizationRecommendation option" where
  "create_right_sizing_recommendation B reply workload metrics cur =
     (let sized = right_size_resources B workload metrics;
          new_resources = fst sized;
          confidence = snd sized
      in if new_resources = current_resources workload then Inr None
         else
           (let rec_config =
                  \<lparr>cfg_cpu_request = Some (cpu_request new_resources),
                   cfg_memory_request = Some (memory_request new_resources),
                   cfg_cpu_limit = Some (cpu_limit new_resources),
                   cfg_memory_limit = Some (memory_limit new_resources),
                   cfg_replicas = Some (replicas workload), cfg_other = []\<rparr>
            in and_then (calculate_optimized_costs B reply workload rec_config None)
                 (\<lambda>optimized.
                    let savings = monthly cur - monthly optimized
                    in if savings \<le> 0 then Inr None
                       else
                         and_then (assess_risk workload RIGHT_SIZE_CPU (Some metrics))
                           (\<lambda>risk.
                              and_then
                                (make_OptimizationRecommendation
                                   \<lparr>optimization_type = RIGHT_SIZE_CPU,
                                    recommended_config = rec_config,
                                    current_cost = cur, optimized_cost = optimized,
                                    monthly_savings = savings,
                                    yearly_savings = savings * 12,
                                    savings_percentage = savings_percent savings cur,
                                    confidence_score = confidence,
                                    risk_assessment = risk,
                                    rollback_plan =
                                      create_rollback_plan workload RIGHT_SIZE_CPU\<rparr>)
                                (\<lambda>r. Inr (Some r))))))"

text \<open>\<open>Recommender._create_replica_optimization_recommendation\<close>.\<close>

definition create_replica_optimization_recommendation ::
  "py_builtins \<Rightarrow> pricing_reply \<Rightarrow> Workload \<Rightarrow> WorkloadMetrics \<Rightarrow> CostEstimate
     \<Rightarrow> py_error + OptimizationRecommendation option" where
  "create_replica_optimization_recommendation B reply workload metrics cur =
     and_then (optimize_replicas workload metrics 70.0)
       (\<lambda>(recommended_replicas, confidence).
          if recommended_replicas = replicas workload then Inr None
          else
            (let rec_config =
                   (resources_dict (current_resources workload))
                     \<lparr>cfg_replicas := Some recommended_replicas\<rparr>
             in and_then (calculate_optimized_costs B reply workload rec_config None)
                  (\<lambda>optimized.
                     let savings = monthly cur - monthly optimized
                     in if savings \<le> 0 then Inr None
                        else
                          (let opt_type =
                                 (if recommended_replicas < replicas workload
                                  then REDUCE_REPLICAS else INCREASE_REPLICAS)
                           in and_then (assess_risk workload opt_type (Some metrics))
                                (\<lambda>risk.
                                   and_then
                                     (make_OptimizationRecommendation
                                        \<lparr>optimization_type = opt_type,
                                         recommended_config = rec_config,
                                         current_cost = cur, optimized_cost = optimized,
                                         monthly_savings = savings,
                                         yearly_savings = savings * 12,
                                         savings_percentage = savings_percent savings cur,
                                         confidence_score = confidence,
                                         risk_assessment = risk,
                                         rollback_plan =
                                           create_rollback_plan workload opt_type\<rparr>)
                                     (\<lambda>r. Inr (Some r)))))))"

text \<open>\<open>Recommender._create_spot_instance_recommendation\<close>.\<close>

definition create_spot_instance_recommendation ::
  "py_builtins \<Rightarrow> spot_reply \<Rightarrow> Workload \<Rightarrow> WorkloadMetrics \<Rightarrow> CostEstimate
     \<Rightarrow> py_error + OptimizationRecommendation option" where
  "create_spot_instance_recommendation B reply workload metrics cur =
     (let verdict = recommend_spot_instances workload metrics;
          is_suitable = fst verdict;
          confidence = fst (snd verdict)
      in if \<not> is_suitable then Inr None
         else
           and_then (spot_vs_ondemand B reply workload None)
             (\<lambda>spot_data.
                let savings = summary_monthly_savings spot_data
                in if savings \<le> 0 then Inr None
                   else
                     (let rec_config =
                            (resources_dict (current_resources workload))
                              \<lparr>cfg_replicas := Some (replicas workload),
                               cfg_other := [(''instance_type'', JStr ''spot'')]\<rparr>;
                          optimized =
                            cur\<lparr>monthly := spot_monthly spot_data,
                                yearly := spot_monthly spot_data * 12\<rparr>
                      in and_then
                           (make_RiskAssessment MEDIUM 0.5
                              [''Potential spot instance interruptions'',
                               ''Requires fault-tolerant application design'']
                              [''Ensure replicas > 1'', ''Implement graceful shutdown'',
                               ''Use spot instance pools''])
                           (\<lambda>risk.
                              and_then
                                (make_OptimizationRecommendation
                                   \<lparr>optimization_type = SPOT_INSTANCES,
                                    recommended_config = rec_config,
                                    current_cost = cur, optimized_cost = optimized,
                                    monthly_savings = savings,
                                    yearly_savings = savings * 12,
                                    savings_percentage = savings_percent savings cur,
                                    confidence_score = confidence,
                                    risk_assessment = risk,
                                    rollback_plan =
                                      \<lparr>steps = [''Scale back to on-demand instances'',
                                                ''Verify application stability''],
                                       estimated_time_minutes = 5,
                                       automation_available = True\<rparr>\<rparr>)
                                (\<lambda>r. Inr (Some r))))))"

text \<open>\<open>Recommender._create_scheduled_scaling_recommendation\<close>.\<close>

definition create_scheduled_scaling_recommendation ::
  "Workload \<Rightarrow> WorkloadMetrics \<Rightarrow> CostEstimate
     \<Rightarrow> py_error + OptimizationRecommendation option" where
  "create_scheduled_scaling_recommendation workload metrics cur =
     (let opportunity = detect_scheduled_scaling_opportunity metrics
      in if \<not> suitable opportunity then Inr None
         else
           (let scale_down_factor =
                  (case off_peak_scale_down opportunity of None \<Rightarrow> 0.5 | Some f \<Rightarrow> f);
                estimated_savings = monthly cur * (1 - scale_down_factor) * 0.5
            in if estimated_savings \<le> 0 then Inr None
               else
                 (let rec_config =
                        (resources_dict (current_resources workload))
                          \<lparr>cfg_other :=
                             [(''scaling_schedule'', JStr (strategy opportunity)),
                              (''peak_replicas'', JInt (replicas workload)),
                              (''off_peak_replicas'',
                               JInt (max 1 (py_trunc (of_int (replicas workload)
                                                       * scale_down_factor))))]\<rparr>;
                      optimized =
                        cur\<lparr>monthly := monthly cur - estimated_savings,
                            yearly := (monthly cur - estimated_savings) * 12\<rparr>
                  in and_then (assess_risk workload SCHEDULED_SCALING (Some metrics))
                       (\<lambda>risk.
                          and_then
                            (make_OptimizationRecommendation
                               \<lparr>optimization_type = SCHEDULED_SCALING,
                                recommended_config = rec_config,
                                current_cost = cur, optimized_cost = optimized,
                                monthly_savings = estimated_savings,
                                yearly_savings = estimated_savings * 12,
                                savings_percentage = savings_percent estimated_savings cur,
                                confidence_score = opportunity_confidence opportunity,
                                risk_assessment = risk,
                                rollback_plan =
                                  create_rollback_plan workload SCHEDULED_SCALING\<rparr>)
                            (\<lambda>r. Inr (Some r))))))"

text \<open>\<open>Recommender._create_unused_resource_recommendation\<close>.\<close>

definition create_unused_resource_recommendation ::
  "Workload \<Rightarrow> WorkloadMetrics \<Rightarrow> CostEstimate
     \<Rightarrow> py_error + OptimizationRecommendation option" where
  "create_unused_resource_recommendation workload metrics cur =
     and_then
       (make_RiskAssessment LOW 0.2
          [''Very low resource utilization detected'', ''Workload may be unused'']
          [''Verify workload purpose'', ''Check application logs'', ''Coordinate with team''])
       (\<lambda>risk.
          and_then
            (make_OptimizationRecommendation
               \<lparr>optimization_type = REMOVE_UNUSED,
                recommended_config =
                  \<lparr>cfg_cpu_request = None, cfg_memory_request = None, cfg_cpu_limit = None,
                   cfg_memory_limit = None, cfg_replicas = None,
                   cfg_other = [(''action'', JStr ''delete'')]\<rparr>,
                current_cost = cur,
                optimized_cost = cur\<lparr>monthly := 0, yearly := 0\<rparr>,
                monthly_savings = monthly cur,
                yearly_savings = yearly cur,
                savings_percentage = 100.0,
                confidence_score = 0.6,
                risk_assessment = risk,
                rollback_plan =
                  \<lparr>steps = [''Restore from backup'', ''Redeploy from manifest''],
                   estimated_time_minutes = 10, automation_available = True\<rparr>\<rparr>)
            (\<lambda>r. Inr (Some r)))"

text \<open>
  \<open>Recommender.generate_recommendations\<close>. Each call of a collaborator has its own
  reply; a reply is read only when the code makes the call. \<open>admit\<close> is the test
  \<open>if rec and rec.confidence_score >= min_confidence\<close> followed by \<open>append\<close>. The final
  sort is stable and descending in \<open>monthly_savings\<close>.
\<close>

record collaborators =
  reply_current :: pricing_reply
  reply_right_size :: pricing_reply
  reply_replica :: pricing_reply
  reply_spot :: spot_reply

definition admit ::
  "real \<Rightarrow> OptimizationRecommendation option \<Rightarrow> OptimizationRecommendation list" where
  "admit min_confidence candidate =
     (case candidate of
        None \<Rightarrow> []
      | Some r \<Rightarrow> if min_confidence \<le> confidence_score r then [r] else [])"

definition generate_recommendations ::
  "py_builtins \<Rightarrow> collaborators \<Rightarrow> Workload \<Rightarrow> WorkloadMetrics \<Rightarrow> real
     \<Rightarrow> py_error + OptimizationRecommendation list" where
  "generate_recommendations B env workload metrics min_confidence =
     and_then (fetch_current_costs B (reply_current env) workload None)
       (\<lambda>cur.
          and_then
            (if detect_unused_resources metrics 5.0
             then create_unused_resource_recommendation workload metrics cur
             else Inr None)
            (\<lambda>unused_rec.
               and_then
                 (create_right_sizing_recommendation B (reply_right_size env)
                    workload metrics cur)
                 (\<lambda>right_size_rec.
                    and_then
                      (create_replica_optimization_recommendation B (reply_replica env)
                         workload metrics cur)
                      (\<lambda>replica_rec.
                         and_then
                           (create_spot_instance_recommendation B (reply_spot env)
                              workload metrics cur)
                           (\<lambda>spot_rec.
                              and_then
                                (create_scheduled_scaling_recommendation workload
                                   metrics cur)
                                (\<lambda>scaling_rec.
                                   Inr (sort_key (\<lambda>r. - monthly_savings r)
                                          (admit min_confidence unused_rec
                                           @ admit min_confidence right_size_rec
                                           @ admit min_confidence replica_rec
                                           @ admit min_confidence spot_rec
                                           @ admit min_confidence scaling_rec))))))))"

section \<open>The cluster as the operator sees it\<close>

text \<open>
  The operator reads and patches workloads through the Kubernetes client and keeps
  rollback snapshots in Redis and in ConfigMaps. The model holds these stores in one
  record. A read of an object that does not exist raises (status 404); every other call
  on an existing object succeeds. A workload read from the API server always has a
  replica count. \<open>json.loads (json.dumps state)\<close> returns a dictionary equal to \<open>state\<close>
  for the strings and integers a snapshot holds, so a stored snapshot is the record itself.
  Timestamps are passed in as \<open>now\<close>.
\<close>

record resource_requirements =
  requests :: "(string \<rightharpoonup> string) option"
  limits :: "(string \<rightharpoonup> string) option"

record container =
  container_name :: string
  resources :: "resource_requirements option"

record k8s_workload =
  spec_replicas :: int
  containers :: "container list"
  annotations :: "(string \<rightharpoonup> string) option"
  labels :: "(string \<rightharpoonup> string) option"

record rollback_state =
  state_workload_name :: string
  state_workload_kind :: string
  state_namespace :: string
  state_replicas :: int
  state_resources :: "string \<rightharpoonup> string"
  state_timestamp :: string
  state_annotations :: "string \<rightharpoonup> string"
  state_labels :: "string \<rightharpoonup> string"

record cluster =
  deployments :: "(string \<times> string) \<rightharpoonup> k8s_workload"
  stateful_sets :: "(string \<times> string) \<rightharpoonup> k8s_workload"
  daemon_sets :: "(string \<times> string) \<rightharpoonup> k8s_workload"
  config_maps :: "(string \<times> string) \<rightharpoonup> rollback_state"
  redis_data :: "string \<rightharpoonup> rollback_state"

text \<open>\<open>d.get(key, default)\<close> and \<open>x or {}\<close>.\<close>

definition get_or :: "('k \<rightharpoonup> 'v) \<Rightarrow> 'k \<Rightarrow> 'v \<Rightarrow> 'v" where
  "get_or d k dflt = (case d k of None \<Rightarrow> dflt | Some v \<Rightarrow> v)"

definition or_empty :: "('k \<rightharpoonup> 'v) option \<Rightarrow> ('k \<rightharpoonup> 'v)" where
  "or_empty d = (case d of None \<Rightarrow> Map.empty | Some m \<Rightarrow> m)"

section \<open>handlers/rollback\_handler.py\<close>

text \<open>
  \<open>RollbackHandler._extract_resources\<close>: the requests and limits of the first container,
  each read only when the dictionary is present and not empty.
\<close>

definition extract_resources :: "k8s_workload \<Rightarrow> (string \<rightharpoonup> string)" where
  "extract_resources workload =
     (case containers workload of
        [] \<Rightarrow> Map.empty
      | c # others \<Rightarrow>
          (case resources c of
             None \<Rightarrow> Map.empty
           | Some rr \<Rightarrow>
               (let with_requests =
                      (case requests rr of
                         None \<Rightarrow> Map.empty
                       | Some rq \<Rightarrow>
                           if rq = Map.empty then Map.empty
                           else [''cpu_request'' \<mapsto> get_or rq ''cpu'' ''0'',
                                 ''memory_request'' \<mapsto> get_or rq ''memory'' ''0''])
                in case limits rr of
                     None \<Rightarrow> with_requests
                   | Some lm \<Rightarrow>
                       if lm = Map.empty then with_requests
                       else with_requests(''cpu_limit'' \<mapsto> get_or lm ''cpu'' ''0'',
                                          ''memory_limit'' \<mapsto> get_or lm ''memory'' ''0''))))"

definition redis_key :: "string \<Rightarrow> string \<Rightarrow> string \<Rightarrow> string" where
  "redis_key ns workload_kind workload_name =
     ''rollback:'' @ ns @ '':'' @ workload_kind @ '':'' @ workload_name"

definition configmap_name :: "string \<Rightarrow> string" where
  "configmap_name workload_name = workload_name @ ''-rollback-state''"

text \<open>
  \<open>RollbackHandler.store_original_state\<close>. \<open>redis_connected\<close> says whether this handler
  has a Redis client (its constructor could connect). \<open>_store_in_configmap\<close> creates the
  ConfigMap and replaces it on a conflict, so the snapshot ends up under the name either way.
\<close>

definition store_original_state ::
  "bool \<Rightarrow> string \<Rightarrow> string \<Rightarrow> string \<Rightarrow> string \<Rightarrow> k8s_workload \<Rightarrow> cluster
     \<Rightarrow> bool \<times> cluster" where
  "store_original_state redis_connected now workload_name workload_kind ns workload cl =
     (let state =
            \<lparr>state_workload_name = workload_name, state_workload_kind = workload_kind,
             state_namespace = ns, state_replicas = spec_replicas workload,
             state_resources = extract_resources workload, state_timestamp = now,
             state_annotations = or_empty (annotations workload),
             state_labels = or_empty (labels workload)\<rparr>;
          cl1 =
            (if redis_connected
             then cl\<lparr>redis_data :=
                       (redis_data cl)(redis_key ns workload_kind workload_name \<mapsto> state)\<rparr>
             else cl)
      in (True,
          cl1\<lparr>config_maps :=
                 (config_maps cl1)((ns, configmap_name workload_name) \<mapsto> state)\<rparr>))"







section \<open>handlers/optimization\_handler.py\<close>

text \<open>\<open>OptimizationHandler._get_workload\<close>; 404 and an unsupported kind both give \<open>None\<close>.\<close>

definition get_workload :: "string \<Rightarrow> string \<Rightarrow> string \<Rightarrow> cluster \<Rightarrow> k8s_workload option" where
  "get_workload workload_name workload_kind ns cl =
     (if workload_kind = ''Deployment'' then deployments cl (ns, workload_name)
      else if workload_kind = ''StatefulSet'' then stateful_sets cl (ns, workload_name)
      else if workload_kind = ''DaemonSet'' then daemon_sets cl (ns, workload_name)
      else None)"

text \<open>
  The body that \<open>_apply_deployment_optimization\<close> and \<open>_apply_statefulset_optimization\<close>
  share: what they do to the object they have read, before they patch it.
\<close>

definition optimize_container :: "config \<Rightarrow> container \<Rightarrow> container" where
  "optimize_container cfg c =
     (let rr = (case resources c of
                  None \<Rightarrow> \<lparr>requests = None, limits = None\<rparr>
                | Some r \<Rightarrow> r);
          rq0 = or_empty (requests rr);
          rq1 = (case cfg_cpu_request cfg of None \<Rightarrow> rq0 | Some v \<Rightarrow> rq0(''cpu'' \<mapsto> v));
          rq2 = (case cfg_memory_request cfg of
                   None \<Rightarrow> rq1 | Some v \<Rightarrow> rq1(''memory'' \<mapsto> v));
          lm0 = or_empty (limits rr);
          lm1 = (case cfg_cpu_limit cfg of None \<Rightarrow> lm0 | Some v \<Rightarrow> lm0(''cpu'' \<mapsto> v));
          lm2 = (case cfg_memory_limit cfg of
                   None \<Rightarrow> lm1 | Some v \<Rightarrow> lm1(''memory'' \<mapsto> v))
      in c\<lparr>resources := Some \<lparr>requests = Some rq2, limits = Some lm2\<rparr>\<rparr>)"

definition with_optimization :: "string \<Rightarrow> config \<Rightarrow> k8s_workload \<Rightarrow> k8s_workload" where
  "with_optimization now cfg workload =
     workload
       \<lparr>spec_replicas :=
          (case cfg_replicas cfg of None \<Rightarrow> spec_replicas workload | Some n \<Rightarrow> n),
        containers :=
          (if cfg_cpu_request cfg \<noteq> None \<or> cfg_memory_request cfg \<noteq> None
           then map (optimize_container cfg) (containers workload)
           else containers workload),
        annotations :=
          Some ((or_empty (annotations workload))
                  (''optimization.k8s.io/optimized-at'' \<mapsto> now,
                   ''optimization.k8s.io/optimized-by'' \<mapsto> ''cost-optimizer-operator''))\<rparr>"

definition apply_deployment_optimization ::
  "string \<Rightarrow> string \<Rightarrow> string \<Rightarrow> config \<Rightarrow> cluster \<Rightarrow> bool \<times> cluster" where
  "apply_deployment_optimization now workload_name ns cfg cl =
     (case deployments cl (ns, workload_name) of
        None \<Rightarrow> (False, cl)
      | Some d \<Rightarrow>
          (True, cl\<lparr>deployments :=
                      (deployments cl)((ns, workload_name) \<mapsto> with_optimization now cfg d)\<rparr>))"

definition apply_statefulset_optimization ::
  "string \<Rightarrow> string \<Rightarrow> string \<Rightarrow> config \<Rightarrow> cluster \<Rightarrow> bool \<times> cluster" where
  "apply_statefulset_optimization now workload_name ns cfg cl =
     (case stateful_sets cl (ns, workload_name) of
        None \<Rightarrow> (False, cl)
      | Some s \<Rightarrow>
          (True, cl\<lparr>stateful_sets :=
                      (stateful_sets cl)((ns, workload_name) \<mapsto> with_optimization now cfg s)\<rparr>))"

text \<open>
  \<open>OptimizationHandler.apply_optimization\<close>: read the workload, store the snapshot (unless
  \<open>dry_run\<close>; the result of the store is not looked at), then mutate by kind.
\<close>

definition apply_optimization ::
  "bool \<Rightarrow> string \<Rightarrow> string \<Rightarrow> string \<Rightarrow> string \<Rightarrow> config \<Rightarrow> bool \<Rightarrow> cluster
     \<Rightarrow> bool \<times> cluster" where
  "apply_optimization redis_connected now workload_name workload_kind ns rec_config dry_run cl =
     (case get_workload workload_name workload_kind ns cl of
        None \<Rightarrow> (False, cl)
      | Some workload \<Rightarrow>
          if dry_run then (True, cl)
          else
            (let cl1 = snd (store_original_state redis_connected now workload_name
                              workload_kind ns workload cl)
             in if workload_kind = ''Deployment''
                then apply_deployment_optimization now workload_name ns rec_config cl1
                else if workload_kind = ''StatefulSet''
                then apply_statefulset_optimization now workload_name ns rec_config cl1
                else (False, cl1)))"

section \<open>operator/main.py: the periodic check\<close>

text \<open>
  The declaration's \<open>spec\<close>, with \<open>None\<close> for a key that is absent, and the part of the
  \<open>status\<close> the check reads.
\<close>

record cost_optimization =
  target_name :: string
  target_kind :: string
  target_namespace :: "string option"
  optimizationType :: "string option"
  dryRun :: "bool option"
  autoApply :: "bool option"
  minConfidence :: "real option"
  maxRiskLevel :: "string option"

record declaration_status =
  totalSavings :: "real option"
  appliedOptimizations :: "int option"

text \<open>
  The recommendation dictionary that \<open>analyze_workload\<close> returns, as the optimizer API
  serialises it; \<open>None\<close> for a key that is absent.
\<close>

record recommendation_payload =
  payload_optimization_type :: "string option"
  payload_current_monthly :: "real option"
  payload_optimized_monthly :: "real option"
  payload_monthly_savings :: "real option"
  payload_confidence_score :: "real option"
  payload_risk_level :: "string option"
  payload_recommended_config :: "config option"

text \<open>
  The status patch. The message is kept as its template and arguments, since the text
  formats floats.
\<close>

datatype status_message =
  NoOpportunities | AppliedSuccessfully | FailedToApply | NotApplied real string
  | DryRunWouldSave real | AutoApplyDisabled

record current_recommendation =
  cr_optimizationType :: "string option"
  cr_currentCost :: real
  cr_optimizedCost :: real
  cr_monthlySavings :: real
  cr_confidenceScore :: real
  cr_riskLevel :: string
  cr_changes :: "config option"

record status_patch =
  phase :: "string option"
  message :: "status_message option"
  lastAnalysis :: "string option"
  currentRecommendation :: "current_recommendation option"
  lastApplied :: "string option"
  patch_appliedOptimizations :: "int option"
  patch_totalSavings :: "real option"

definition empty_patch :: status_patch where
  "empty_patch =
     \<lparr>phase = None, message = None, lastAnalysis = None, currentRecommendation = None,
      lastApplied = None, patch_appliedOptimizations = None, patch_totalSavings = None\<rparr>"

datatype event = OptimizationApplied real | OptimizationFailed

definition value_or :: "'a option \<Rightarrow> 'a \<Rightarrow> 'a" where
  "value_or x dflt = (case x of None \<Rightarrow> dflt | Some v \<Rightarrow> v)"

text \<open>The table \<open>risk_levels\<close> of the check.\<close>

definition risk_levels :: "string \<rightharpoonup> nat" where
  "risk_levels =
     map_of [(''LOW'', 1), (''MEDIUM'', 2), (''HIGH'', 3), (''CRITICAL'', 4)]"

text \<open>
  \<open>periodic_optimization_check\<close>. \<open>recommendation\<close> is what \<open>analyze_workload\<close> returned
  for this tick (an empty dictionary counts as none) and \<open>cr_namespace\<close> the namespace of
  the declaration. The result is the status patch, the events posted and the cluster.
\<close>

definition periodic_optimization_check ::
  "bool \<Rightarrow> string \<Rightarrow> cost_optimization \<Rightarrow> string \<Rightarrow> declaration_status
     \<Rightarrow> recommendation_payload option \<Rightarrow> cluster \<Rightarrow> status_patch \<times> event list \<times> cluster" where
  "periodic_optimization_check redis_connected now spec cr_namespace status recommendation cl =
     (let workload_namespace = value_or (target_namespace spec) cr_namespace;
          dry_run = value_or (dryRun spec) True;
          auto_apply = value_or (autoApply spec) False;
          min_confidence = value_or (minConfidence spec) 0.7;
          max_risk_level = value_or (maxRiskLevel spec) ''MEDIUM''
      in case recommendation of
           None \<Rightarrow>
             (empty_patch\<lparr>phase := Some ''Ready'', message := Some NoOpportunities,
                          lastAnalysis := Some now\<rparr>, [], cl)
         | Some payload \<Rightarrow>
             (let savings = value_or (payload_monthly_savings payload) 0;
                  patch1 =
                    empty_patch
                      \<lparr>currentRecommendation :=
                         Some \<lparr>cr_optimizationType = payload_optimization_type payload,
                               cr_currentCost = value_or (payload_current_monthly payload) 0,
                               cr_optimizedCost = value_or (payload_optimized_monthly payload) 0,
                               cr_monthlySavings = savings,
                               cr_confidenceScore = value_or (payload_confidence_score payload) 0,
                               cr_riskLevel = value_or (payload_risk_level payload) ''UNKNOWN'',
                               cr_changes = payload_recommended_config payload\<rparr>,
                       lastAnalysis := Some now\<rparr>;
                  risk_level = value_or (payload_risk_level payload) ''HIGH'';
                  confidence = value_or (payload_confidence_score payload) 0;
                  max_risk = get_or risk_levels max_risk_level 2;
                  current_risk = get_or risk_levels risk_level 4
              in if auto_apply \<and> \<not> dry_run
                 then
                   (if min_confidence \<le> confidence \<and> current_risk \<le> max_risk
                    then
                      (case apply_optimization redis_connected now (target_name spec)
                              (target_kind spec) workload_namespace
                              (value_or (payload_recommended_config payload)
                                 \<lparr>cfg_cpu_request = None, cfg_memory_request = None,
                                  cfg_cpu_limit = None, cfg_memory_limit = None,
                                  cfg_replicas = None, cfg_other = []\<rparr>)
                              False cl of
                         (True, cl') \<Rightarrow>
                           (let new_savings = value_or (totalSavings status) 0 + savings
                            in (patch1\<lparr>phase := Some ''Applied'',
                                       message := Some AppliedSuccessfully,
                                       lastApplied := Some now,
                                       patch_appliedOptimizations :=
                                         Some (value_or (appliedOptimizations status) 0 + 1),
                                       patch_totalSavings := Some new_savings\<rparr>,
                                [OptimizationApplied savings], cl'))
                       | (False, cl') \<Rightarrow>
                           (patch1\<lparr>phase := Some ''Failed'',
                                   message := Some FailedToApply\<rparr>,
                            [OptimizationFailed], cl'))
                    else
                      (patch1\<lparr>phase := Some ''Ready'',
                              message := Some (NotApplied confidence risk_level)\<rparr>, [], cl))
                 else
                   (patch1\<lparr>phase := Some ''Ready'',
                           message :=
                             Some (if dry_run then DryRunWouldSave savings
                                   else AutoApplyDisabled)\<rparr>, [], cl)))"

text \<open>
  How the optimizer API writes a risk level into the recommendation it returns: the value
  of the \<open>RiskLevel\<close> member (\<open>class RiskLevel(str, Enum)\<close> in models.py).
\<close>

definition risk_level_value :: "RiskLevel \<Rightarrow> string" where
  "risk_level_value l =
     (case l of LOW \<Rightarrow> ''low'' | MEDIUM \<Rightarrow> ''medium'' | HIGH \<Rightarrow> ''high''
      | CRITICAL \<Rightarrow> ''critical'')"

section \<open>Stages of the confidence score\<close>

text \<open>
  \<open>calculate_confidence\<close> adds four bonuses to its base value one after the other. The
  four stages are named here so that each can be bounded on its own.
\<close>

definition conf_samples :: "int \<Rightarrow> real" where
  "conf_samples n =
     (if 1000 < n then 0.5 + 0.2 else if 500 < n then 0.5 + 0.15
      else if 100 < n then 0.5 + 0.1 else 0.5)"

definition conf_variance :: "real \<Rightarrow> real \<Rightarrow> real" where
  "conf_variance v c = (if v < 0.15 then c + 0.2 else if v < 0.3 then c + 0.1 else c)"

definition conf_window :: "int \<Rightarrow> real \<Rightarrow> real" where
  "conf_window h c = (if 168 \<le> h then c + 0.1 else if 72 \<le> h then c + 0.05 else c)"

definition conf_extreme :: "string \<Rightarrow> real \<Rightarrow> real \<Rightarrow> real" where
  "conf_extreme k u c = (if k = ''right_sizing'' \<and> (u < 20 \<or> 90 < u) then c + 0.05 else c)"

section \<open>Example inputs\<close>

definition ex_resources :: ResourceSpec where
  "ex_resources =
     \<lparr>cpu_request = ''500m'', memory_request = ''512Mi'',
      cpu_limit = ''1'', memory_limit = ''1Gi''\<rparr>"

definition ex_workload :: Workload where
  "ex_workload =
     \<lparr>workload_ident = ''w-1'', cluster_id = ''c-1'', cluster_name = ''prod'',
      namespace = ''default'', name = ''web'', kind = ''Deployment'', replicas = 8,
      current_resources = ex_resources, provider = ''aws''\<rparr>"

definition flat_stats :: MetricStats where
  "flat_stats = \<lparr>avg = 10, p50 = 10, p95 = 10, p99 = 10, stat_max = 10, stat_min = 10\<rparr>"

definition spread_stats :: MetricStats where
  "spread_stats = \<lparr>avg = 100, p50 = 100, p95 = 135, p99 = 140, stat_max = 150, stat_min = 90\<rparr>"

definition ex_metrics :: WorkloadMetrics where
  "ex_metrics =
     \<lparr>workload_id = ''w-1'', cpu_usage = flat_stats, memory_usage = flat_stats,
      cpu_utilization_pct = 75, memory_utilization_pct = 70,
      sample_count = 2000, time_range_hours = 168\<rparr>"

definition ten_workload :: Workload where
  "ten_workload = ex_workload\<lparr>replicas := 10\<rparr>"

definition ten_metrics :: WorkloadMetrics where
  "ten_metrics = ex_metrics\<lparr>cpu_utilization_pct := 60, memory_utilization_pct := 50\<rparr>"

definition skewed_metrics :: WorkloadMetrics where
  "skewed_metrics = ex_metrics\<lparr>memory_usage := spread_stats\<rparr>"

definition short_metrics :: WorkloadMetrics where
  "short_metrics = ex_metrics\<lparr>sample_count := 200, time_range_hours := 24\<rparr>"

definition tebibyte_workload :: Workload where
  "tebibyte_workload = ex_workload\<lparr>current_resources := ex_resources\<lparr>memory_request := ''1Ti''\<rparr>\<rparr>"










text \<open>What the savings invariant compares, for one recommendation.\<close>

definition savings_view :: "OptimizationRecommendation \<Rightarrow> OptimizationType \<times> real \<times> real" where
  "savings_view r =
     (optimization_type r, monthly_savings r,
      monthly (current_cost r) - monthly (optimized_cost r))"

text \<open>The snapshot dictionary that \<open>store_original_state\<close> builds.\<close>

definition snapshot_of :: "string \<Rightarrow> string \<Rightarrow> string \<Rightarrow> string \<Rightarrow> k8s_workload \<Rightarrow> rollback_state" where
  "snapshot_of now workload_name workload_kind ns workload =
     \<lparr>state_workload_name = workload_name, state_workload_kind = workload_kind,
      state_namespace = ns, state_replicas = spec_replicas workload,
      state_resources = extract_resources workload, state_timestamp = now,
      state_annotations = or_empty (annotations workload),
      state_labels = or_empty (labels workload)\<rparr>"



definition web_deployment :: k8s_workload where
  "web_deployment =
     \<lparr>spec_replicas = 3,
      containers =
        [\<lparr>container_name = ''nginx'',
          resources =
            Some \<lparr>requests = Some [''cpu'' \<mapsto> ''500m'', ''memory'' \<mapsto> ''512Mi''],
                  limits = None\<rparr>\<rparr>],
      annotations = None,
      labels = Some [''app'' \<mapsto> ''web'']\<rparr>"

definition web_cluster :: cluster where
  "web_cluster =
     \<lparr>deployments = [(''default'', ''web'') \<mapsto> web_deployment],
      stateful_sets = Map.empty, daemon_sets = Map.empty,
      config_maps = Map.empty, redis_data = Map.empty\<rparr>"

definition right_size_config :: config where
  "right_size_config =
     \<lparr>cfg_cpu_request = Some ''431m'', cfg_memory_request = Some ''329Mi'',
      cfg_cpu_limit = Some ''646m'', cfg_memory_limit = Some ''427Mi'',
      cfg_replicas = Some 3, cfg_other = []\<rparr>"


definition auto_declaration :: cost_optimization where
  "auto_declaration =
     \<lparr>target_name = ''web'', target_kind = ''Deployment'', target_namespace = None,
      optimizationType = Some ''CPU'', dryRun = Some False, autoApply = Some True,
      minConfidence = Some 0.7, maxRiskLevel = Some ''MEDIUM''\<rparr>"

definition fresh_status :: declaration_status where
  "fresh_status = \<lparr>totalSavings = None, appliedOptimizations = None\<rparr>"

definition low_risk_payload :: recommendation_payload where
  "low_risk_payload =
     \<lparr>payload_optimization_type = Some ''right_size_cpu'',
      payload_current_monthly = Some 200, payload_optimized_monthly = Some 80,
      payload_monthly_savings = Some 120, payload_confidence_score = Some 0.85,
      payload_risk_level = Some (risk_level_value LOW),
      payload_recommended_config = Some right_size_config\<rparr>"


definition tick_time :: string where
  "tick_time = ''2024-01-01T00:00:00''"

definition idle_resources :: ResourceSpec where
  "idle_resources =
     \<lparr>cpu_request = ''0'', memory_request = ''0'', cpu_limit = ''0'', memory_limit = ''0''\<rparr>"

definition idle_workload :: Workload where
  "idle_workload = ex_workload\<lparr>replicas := 2, current_resources := idle_resources\<rparr>"

definition idle_stats :: MetricStats where
  "idle_stats = \<lparr>avg = 0, p50 = 0, p95 = 0, p99 = 0, stat_max = 0, stat_min = 0\<rparr>"

definition idle_metrics :: WorkloadMetrics where
  "idle_metrics =
     \<lparr>workload_id = ''w-1'', cpu_usage = idle_stats, memory_usage = idle_stats,
      cpu_utilization_pct = 0, memory_utilization_pct = 0,
      sample_count = 2000, time_range_hours = 168\<rparr>"

definition offline_collaborators :: collaborators where
  "offline_collaborators =
     \<lparr>reply_current = RequestFailed, reply_right_size = RequestFailed,
      reply_replica = RequestFailed, reply_spot = SpotRequestFailed\<rparr>"

definition free_cost :: CostEstimate where
  "free_cost =
     \<lparr>hourly = 0, daily = 0, monthly = 0, yearly = 0,
      breakdown = \<lparr>compute = 0, memory = 0, storage = 0, network = 0, total = 0\<rparr>\<rparr>"

definition half_way_metrics :: WorkloadMetrics where
  "half_way_metrics = ex_metrics\<lparr>cpu_utilization_pct := 59.5, memory_utilization_pct := 50\<rparr>"

section \<open>Properties of the statistics engine\<close>

lemma calculate_confidence_stages:
  "calculate_confidence m k =
     min 1.0 (conf_extreme k (cpu_utilization_pct m)
       (conf_window (time_range_hours m)
         (conf_variance
           ((calculate_variance (cpu_usage m) + calculate_variance (memory_usage m)) / 2)
           (conf_samples (sample_count m)))))"
  unfolding calculate_confidence_def Let_def conf_samples_def conf_variance_def
    conf_window_def conf_extreme_def
  by (rule refl)

lemma conf_samples_range: "0.5 \<le> conf_samples n \<and> conf_samples n \<le> 0.7"
  by (simp add: conf_samples_def)

lemma conf_samples_mono: "n \<le> n' \<Longrightarrow> conf_samples n \<le> conf_samples n'"
  by (simp add: conf_samples_def)

lemma conf_variance_range: "c \<le> conf_variance v c \<and> conf_variance v c \<le> c + 0.2"
  by (simp add: conf_variance_def)

lemma conf_variance_mono: "c \<le> c' \<Longrightarrow> conf_variance v c \<le> conf_variance v c'"
  by (simp add: conf_variance_def)

lemma conf_window_range: "c \<le> conf_window h c"
  by (simp add: conf_window_def)

lemma conf_window_mono:
  "h \<le> h' \<Longrightarrow> c \<le> c' \<Longrightarrow> conf_window h c \<le> conf_window h' c'"
  by (simp add: conf_window_def)

lemma conf_extreme_range: "c \<le> conf_extreme k u c"
  by (simp add: conf_extreme_def)

lemma conf_extreme_mono: "c \<le> c' \<Longrightarrow> conf_extreme k u c \<le> conf_extreme k u c'"
  by (auto simp add: conf_extreme_def)

lemma calculate_confidence_range:
  "0 \<le> calculate_confidence m k \<and> calculate_confidence m k \<le> 1"
proof -
  let ?s = "conf_samples (sample_count m)"
  let ?v = "conf_variance
              ((calculate_variance (cpu_usage m) + calculate_variance (memory_usage m)) / 2) ?s"
  let ?w = "conf_window (time_range_hours m) ?v"
  let ?e = "conf_extreme k (cpu_utilization_pct m) ?w"
  have "0.5 \<le> ?s" using conf_samples_range by blast
  also have "?s \<le> ?v" using conf_variance_range by blast
  also have "?v \<le> ?w" by (rule conf_window_range)
  also have "?w \<le> ?e" by (rule conf_extreme_range)
  finally have "0 \<le> ?e" by simp
  then show ?thesis unfolding calculate_confidence_stages by simp
qed

lemma calculate_confidence_mono:
  assumes v: "calculate_variance (cpu_usage m) + calculate_variance (memory_usage m)
              = calculate_variance (cpu_usage m') + calculate_variance (memory_usage m')"
    and u: "cpu_utilization_pct m = cpu_utilization_pct m'"
    and n: "sample_count m \<le> sample_count m'"
    and h: "time_range_hours m \<le> time_range_hours m'"
  shows "calculate_confidence m k \<le> calculate_confidence m' k"
  unfolding calculate_confidence_stages v u
  by (intro min.mono order_refl conf_extreme_mono conf_window_mono conf_variance_mono
        conf_samples_mono n h)


text \<open>
  Claim C4. The anti-thrash rule of \<open>optimize_replicas\<close>. The computed replica target is
  the integer the function holds when it reaches the anti-thrash test (\<open>replica_target\<close>).
  With 10 current replicas and a target within [8.5, 11.5] the function returns 10; in
  general, with at least one current replica, a target that differs from the current count
  by less than 15% of it is replaced by the current count.
\<close>

theorem anti_thrash_keeps_current:
  assumes "replica_target w m t = Inr r"
  shows "(replicas w = 10 \<and> 8.5 \<le> real_of_int r \<and> real_of_int r \<le> 11.5
            \<longrightarrow> optimize_replicas w m t = Inr (10, calculate_confidence m ''replica_optimization''))
       \<and> (1 \<le> replicas w \<and> real_of_int \<bar>r - replicas w\<bar> < 0.15 * real_of_int (replicas w)
            \<longrightarrow> optimize_replicas w m t
                  = Inr (replicas w, calculate_confidence m ''replica_optimization''))"
proof (intro conjI impI)
  assume a: "replicas w = 10 \<and> 8.5 \<le> real_of_int r \<and> real_of_int r \<le> 11.5"
  then have "\<bar>r - 10\<bar> \<le> 1" by linarith
  then have "real_of_int \<bar>r - 10\<bar> \<le> 1" by linarith
  then have "real_of_int \<bar>r - 10\<bar> / 10 < 0.15" by simp
  with a assms show "optimize_replicas w m t = Inr (10, calculate_confidence m ''replica_optimization'')"
    by (simp add: optimize_replicas_def Let_def)
next
  assume a: "1 \<le> replicas w \<and> real_of_int \<bar>r - replicas w\<bar> < 0.15 * real_of_int (replicas w)"
  then have "0 < real_of_int (replicas w)" by simp
  with a have "real_of_int \<bar>r - replicas w\<bar> / real_of_int (replicas w) < 0.15"
    by (simp add: pos_divide_less_eq)
  with a assms show "optimize_replicas w m t
                  = Inr (replicas w, calculate_confidence m ''replica_optimization'')"
    by (simp add: optimize_replicas_def Let_def)
qed

theorem anti_thrash_keeps_current_witness:
  "replica_target ten_workload ten_metrics 70 = Inr 9
   \<and> replicas ten_workload = 10 \<and> (8.5::real) \<le> real_of_int 9 \<and> real_of_int 9 \<le> (11.5::real)
   \<and> 1 \<le> replicas ten_workload
   \<and> real_of_int \<bar>9 - replicas ten_workload\<bar> < 0.15 * real_of_int (replicas ten_workload)
   \<and> optimize_replicas ten_workload ten_metrics 70
       = Inr (10, calculate_confidence ten_metrics ''replica_optimization'')"
proof -
  have t: "replica_target ten_workload ten_metrics 70 = Inr 9"
    by (simp add: replica_target_def ten_workload_def ten_metrics_def ex_workload_def
          ex_metrics_def py_round_def Let_def)
  have r: "replicas ten_workload = 10" by (simp add: ten_workload_def)
  show ?thesis using anti_thrash_keeps_current [OF t] t r by simp
qed

text \<open>
  The unrounded optimum exists only on the middle branch (utilization between 30 and 85).
  Strictly inside the band it rounds to 9, 10 or 11 and the current count is kept; at the
  end point 8.5 it rounds to the even neighbour 8, an integer target outside the band.
\<close>

lemma py_round_near: "\<bar>real_of_int (py_round x) - x\<bar> \<le> 1 / 2"
proof -
  have "real_of_int \<lfloor>x\<rfloor> \<le> x" "x < real_of_int \<lfloor>x\<rfloor> + 1" by linarith+
  then show ?thesis by (auto simp add: py_round_def Let_def)
qed

lemma optimum_inside_band:
  assumes "replicas w = 10" and "0 < t"
    and "30 \<le> max (cpu_utilization_pct m) (memory_utilization_pct m)"
    and "max (cpu_utilization_pct m) (memory_utilization_pct m) \<le> 85"
    and "8.5 < 10 * (max (cpu_utilization_pct m) (memory_utilization_pct m) / t)"
    and "10 * (max (cpu_utilization_pct m) (memory_utilization_pct m) / t) < 11.5"
  shows "optimize_replicas w m t = Inr (10, calculate_confidence m ''replica_optimization'')"
proof -
  define mx where "mx = max (cpu_utilization_pct m) (memory_utilization_pct m)"
  define x where "x = 10 * (mx / t)"
  have n: "\<bar>real_of_int (py_round x) - x\<bar> \<le> 1 / 2" by (rule py_round_near)
  from assms(5,6) have "8.5 < x" "x < 11.5" by (simp_all add: x_def mx_def)
  with n have "8 < real_of_int (py_round x)" "real_of_int (py_round x) < 12" by linarith+
  then have b: "9 \<le> py_round x" "py_round x \<le> 11" by linarith+
  then have k: "max 1 (py_round x) = py_round x" by simp
  from assms(2,3,4) have f: "\<not> mx < 30" "\<not> 85 < mx" "t \<noteq> 0" unfolding mx_def by linarith+
  have "replica_target w m t
        = Inr (if kind w = ''StatefulSet'' \<and> py_round x < 10 then 10 else py_round x)"
    unfolding replica_target_def Let_def mx_def [symmetric] assms(1)
    using f k by (simp add: x_def)
  then obtain r where t: "replica_target w m t = Inr r" and r: "9 \<le> r" "r \<le> 11"
    using b by auto
  from r have "\<bar>r - 10\<bar> \<le> 1" by linarith
  then have "real_of_int \<bar>r - 10\<bar> \<le> 1" by linarith
  then have "real_of_int \<bar>r - 10\<bar> / 10 < 0.15" by simp
  with assms(1) show ?thesis by (simp add: optimize_replicas_def t Let_def)
qed

lemma half_way_optimum_rounds_to_even:
  "10 * (max (cpu_utilization_pct half_way_metrics) (memory_utilization_pct half_way_metrics) / 70)
     = (8.5 :: real)
   \<and> replica_target ten_workload half_way_metrics 70 = Inr 8
   \<and> optimize_replicas ten_workload half_way_metrics 70
       = Inr (8, calculate_confidence half_way_metrics ''replica_optimization'')"
  by (simp add: optimize_replicas_def replica_target_def ten_workload_def half_way_metrics_def
        ex_workload_def ex_metrics_def py_round_def Let_def)

text \<open>
  Claim C5, amended. For a Deployment with 8 replicas and cpu/memory utilization 75%/70%
  the scaled target 8 * (75 / 70) rounds to 9, but one replica is 12.5% of 8, under the 15%
  anti-thrash band, so \<open>optimize_replicas\<close> returns 8, with the confidence of
  \<open>calculate_confidence\<close>.
\<close>

theorem replicas_8_stays_8:
  assumes "kind w = ''Deployment''" and "replicas w = 8"
    and "cpu_utilization_pct m = 75" and "memory_utilization_pct m = 70"
  shows "replica_target w m 70 = Inr 9
       \<and> optimize_replicas w m 70 = Inr (8, calculate_confidence m ''replica_optimization'')"
proof -
  have t: "replica_target w m 70 = Inr 9"
    using assms by (simp add: replica_target_def py_round_def Let_def)
  show ?thesis using assms by (simp add: t optimize_replicas_def Let_def)
qed

theorem replicas_8_stays_8_witness:
  "kind ex_workload = ''Deployment'' \<and> replicas ex_workload = 8
   \<and> cpu_utilization_pct ex_metrics = 75 \<and> memory_utilization_pct ex_metrics = 70
   \<and> replica_target ex_workload ex_metrics 70 = Inr 9
   \<and> optimize_replicas ex_workload ex_metrics 70
       = Inr (8, calculate_confidence ex_metrics ''replica_optimization'')"
  using replicas_8_stays_8 [of ex_workload ex_metrics]
  by (simp add: ex_workload_def ex_metrics_def)

text \<open>Claim C5 as stated (the result is 9) fails on the example workload.\<close>

theorem replicas_8_not_9:
  "map_sum id fst (optimize_replicas ex_workload ex_metrics 70) \<noteq> Inr 9"
  by (simp add: optimize_replicas_def replica_target_def ex_workload_def ex_metrics_def
        py_round_def Let_def)

text \<open>
  Claim C6, amended. \<open>detect_patterns\<close> computes the variance of each dimension as
  |p95 - p50| / avg when avg is positive and 0 otherwise, and compares the two variances
  separately: burst when the cpu variance exceeds 0.4 or the memory variance exceeds 0.3,
  otherwise steady when both are under 0.15, otherwise business-hours. When cpu and memory
  utilization are both under 30% the recommended scaling is overridden to downsize.
\<close>

theorem detect_patterns_per_dimension:
  "calculate_variance s = (if 0 < avg s then \<bar>p95 s - p50 s\<bar> / avg s else 0)
   \<and> has_burst_pattern (detect_patterns m)
       = (0.4 < calculate_variance (cpu_usage m) \<or> 0.3 < calculate_variance (memory_usage m))
   \<and> has_steady_pattern (detect_patterns m)
       = (calculate_variance (cpu_usage m) < 0.15 \<and> calculate_variance (memory_usage m) < 0.15)
   \<and> has_business_hours_pattern (detect_patterns m)
       = (\<not> has_burst_pattern (detect_patterns m) \<and> \<not> has_steady_pattern (detect_patterns m))
   \<and> \<not> has_weekend_pattern (detect_patterns m)
   \<and> recommended_scaling (detect_patterns m)
       = (if cpu_utilization_pct m < 30 \<and> memory_utilization_pct m < 30 then ''downsize''
          else if has_burst_pattern (detect_patterns m) then ''horizontal''
          else if has_steady_pattern (detect_patterns m) then ''none''
          else ''scheduled'')"
proof -
  have v: "calculate_variance s = (if 0 < avg s then \<bar>p95 s - p50 s\<bar> / avg s else 0)"
    by (simp add: calculate_variance_def abs_divide)
  show ?thesis
    unfolding detect_patterns_def Let_def initial_patterns_def
    by (simp add: v)
qed

text \<open>
  Claim C6 as stated fails: with cpu variance 0 and memory variance 0.35 the averaged
  variance is 0.175, between 0.15 and 0.4, yet the pattern is burst and not business-hours.
\<close>

theorem averaged_variance_not_used:
  "(calculate_variance (cpu_usage skewed_metrics)
      + calculate_variance (memory_usage skewed_metrics)) / 2 = 0.175
   \<and> has_burst_pattern (detect_patterns skewed_metrics)
   \<and> \<not> has_business_hours_pattern (detect_patterns skewed_metrics)"
  by (simp add: detect_patterns_def calculate_variance_def skewed_metrics_def ex_metrics_def
        flat_stats_def spread_stats_def initial_patterns_def Let_def)

text \<open>
  Claim C7. \<open>calculate_confidence\<close> lies in [0, 1] for every metrics value and
  optimization kind, and it does not decrease when the sample count and the observation
  window grow while the averaged variance (and the utilization the right-sizing bonus
  reads) stay the same.
\<close>

theorem calculate_confidence_bounded_monotone:
  "0 \<le> calculate_confidence m k \<and> calculate_confidence m k \<le> 1
   \<and> (calculate_variance (cpu_usage m) + calculate_variance (memory_usage m)
         = calculate_variance (cpu_usage m') + calculate_variance (memory_usage m')
       \<and> cpu_utilization_pct m = cpu_utilization_pct m'
       \<and> sample_count m \<le> sample_count m'
       \<and> time_range_hours m \<le> time_range_hours m'
       \<longrightarrow> calculate_confidence m k \<le> calculate_confidence m' k)"
  using calculate_confidence_range [of m k] calculate_confidence_mono [of m m' k]
  by blast

theorem calculate_confidence_bounded_monotone_witness:
  "sample_count short_metrics \<le> sample_count ex_metrics
   \<and> time_range_hours short_metrics \<le> time_range_hours ex_metrics
   \<and> calculate_confidence short_metrics ''right_sizing'' = 0.8
   \<and> calculate_confidence ex_metrics ''right_sizing'' = 1
   \<and> calculate_confidence short_metrics ''right_sizing''
       \<le> calculate_confidence ex_metrics ''right_sizing''"
proof -
  have a: "calculate_confidence short_metrics ''right_sizing'' = 0.8"
    by (simp add: calculate_confidence_def calculate_variance_def short_metrics_def
          ex_metrics_def flat_stats_def Let_def)
  have b: "calculate_confidence ex_metrics ''right_sizing'' = 1"
    by (simp add: calculate_confidence_def calculate_variance_def ex_metrics_def
          flat_stats_def Let_def)
  have c: "sample_count short_metrics \<le> sample_count ex_metrics
           \<and> time_range_hours short_metrics \<le> time_range_hours ex_metrics"
    by (simp add: short_metrics_def ex_metrics_def)
  have d: "calculate_variance (cpu_usage short_metrics) + calculate_variance (memory_usage short_metrics)
         = calculate_variance (cpu_usage ex_metrics) + calculate_variance (memory_usage ex_metrics)
       \<and> cpu_utilization_pct short_metrics = cpu_utilization_pct ex_metrics"
    by (simp add: short_metrics_def)
  show ?thesis
    using calculate_confidence_bounded_monotone [of short_metrics "''right_sizing''" ex_metrics]
      a b c d by blast
qed



section \<open>Properties of the cost calculator\<close>

lemma priced_estimate_failures:
  "priced_estimate RequestFailed n = Inl TransportError
   \<and> priced_estimate (StatusError code) n = Inl HTTPStatusError
   \<and> priced_estimate MalformedPayload n = Inl PayloadError"
  by (simp add: priced_estimate_def)

lemma fallback_estimate_value:
  assumes cpu: "parse_cpu B cs = Inr c"
    and mem: "parse_memory_gb B ms = Inr g"
    and nonneg: "0 \<le> (c * 0.04 + g * 0.005) * of_int n"
  shows "fallback_estimate B cs ms n =
     Inr \<lparr>hourly = (c * 0.04 + g * 0.005) * of_int n,
          daily = (c * 0.04 + g * 0.005) * of_int n * 730 / 30,
          monthly = (c * 0.04 + g * 0.005) * of_int n * 730,
          yearly = (c * 0.04 + g * 0.005) * of_int n * 730 * 12,
          breakdown =
            \<lparr>compute = (c * 0.04 + g * 0.005) * of_int n * 730 * 0.7,
             memory = (c * 0.04 + g * 0.005) * of_int n * 730 * 0.2,
             storage = (c * 0.04 + g * 0.005) * of_int n * 730 * 0.05,
             network = (c * 0.04 + g * 0.005) * of_int n * 730 * 0.05,
             total = (c * 0.04 + g * 0.005) * of_int n * 730\<rparr>\<rparr>"
proof -
  define h where "h = (c * 0.04 + g * 0.005) * of_int n"
  have h: "0 \<le> h" using nonneg by (simp add: h_def)
  then have m: "0 \<le> h * 730" by simp
  have bd: "make_CostBreakdown (h * 730 * 0.7) (h * 730 * 0.2) (h * 730 * 0.05) (h * 730 * 0.05) (h * 730)
    = Inr \<lparr>compute = h * 730 * 0.7, memory = h * 730 * 0.2, storage = h * 730 * 0.05,
         network = h * 730 * 0.05, total = h * 730\<rparr>"
    using h by (simp add: make_CostBreakdown_def)
  have est: "make_CostEstimate h (h * 730 / 30) (h * 730) (h * 730 * 12) b
    = Inr \<lparr>hourly = h, daily = h * 730 / 30, monthly = h * 730, yearly = h * 730 * 12, breakdown = b\<rparr>" for b
    using h by (simp add: make_CostEstimate_def)
  show ?thesis
    unfolding fallback_estimate_def cpu mem sum.case Let_def h_def [symmetric] bd est ..
qed

text \<open>
  Claim C3, amended. When the pricing collaborator fails in any way (no answer, an error
  status, a malformed payload, or numbers the models reject), \<open>fetch_current_costs\<close>
  returns the local fallback: hourly = (cpu_cores * 0.04 + memory_GB * 0.005) * replicas,
  monthly = hourly * 730, and a breakdown of 70/20/5/5 percent of the monthly cost. This
  holds for every workload whose cpu and memory request strings parse and whose fallback
  cost is not negative.
\<close>

theorem fetch_current_costs_fallback:
  assumes cpu: "parse_cpu B (cpu_request (current_resources w)) = Inr c"
    and mem: "parse_memory_gb B (memory_request (current_resources w)) = Inr g"
    and nonneg: "0 \<le> (c * 0.04 + g * 0.005) * of_int (replicas w)"
    and failed: "priced_estimate reply (replicas w) = Inl exc"
  shows "fetch_current_costs B reply w itype =
     Inr \<lparr>hourly = (c * 0.04 + g * 0.005) * of_int (replicas w),
          daily = (c * 0.04 + g * 0.005) * of_int (replicas w) * 730 / 30,
          monthly = (c * 0.04 + g * 0.005) * of_int (replicas w) * 730,
          yearly = (c * 0.04 + g * 0.005) * of_int (replicas w) * 730 * 12,
          breakdown =
            \<lparr>compute = (c * 0.04 + g * 0.005) * of_int (replicas w) * 730 * 0.7,
             memory = (c * 0.04 + g * 0.005) * of_int (replicas w) * 730 * 0.2,
             storage = (c * 0.04 + g * 0.005) * of_int (replicas w) * 730 * 0.05,
             network = (c * 0.04 + g * 0.005) * of_int (replicas w) * 730 * 0.05,
             total = (c * 0.04 + g * 0.005) * of_int (replicas w) * 730\<rparr>\<rparr>
   \<and> priced_estimate RequestFailed (replicas w) = Inl TransportError
   \<and> priced_estimate (StatusError code) (replicas w) = Inl HTTPStatusError
   \<and> priced_estimate MalformedPayload (replicas w) = Inl PayloadError"
proof -
  have inf: "infer_instance_type B w p = Inr (instance_type_for p c g)" for p
    by (simp add: infer_instance_type_def cpu mem)
  have fb: "fallback_cost_estimate B w = fallback_estimate B (cpu_request (current_resources w))
       (memory_request (current_resources w)) (replicas w)"
    by (simp add: fallback_cost_estimate_def)
  have "fetch_current_costs B reply w itype = fallback_cost_estimate B w"
    by (cases itype) (simp_all add: fetch_current_costs_def Let_def inf cpu mem failed)
  then show ?thesis
    using fallback_estimate_value [OF cpu mem nonneg] priced_estimate_failures
    by (simp add: fb)
qed

lemma ex_cpu: "parse_cpu plain_builtins (cpu_request (current_resources ex_workload)) = Inr 0.5"
  by (simp add: ex_workload_def ex_resources_def parse_cpu_def endswith_def plain_builtins_def plain_float_def plain_unsigned_float_def plain_nat_def digit_value_def)

lemma ex_mem: "parse_memory_gb plain_builtins (memory_request (current_resources ex_workload)) = Inr 0.5"
  by (simp add: ex_workload_def ex_resources_def parse_memory_gb_def parse_memory_def multipliers_def endswith_def plain_builtins_def plain_float_def plain_unsigned_float_def plain_nat_def digit_value_def py_trunc_def)

theorem fetch_current_costs_fallback_witness:
  "parse_cpu plain_builtins (cpu_request (current_resources ex_workload)) = Inr 0.5
   \<and> parse_memory_gb plain_builtins (memory_request (current_resources ex_workload)) = Inr 0.5
   \<and> priced_estimate RequestFailed (replicas ex_workload) = Inl TransportError
   \<and> map_sum id monthly (fetch_current_costs plain_builtins RequestFailed ex_workload None) = Inr 131.4
   \<and> map_sum id (compute \<circ> breakdown) (fetch_current_costs plain_builtins RequestFailed ex_workload None) = Inr 91.98"
proof -
  have f: "priced_estimate RequestFailed (replicas ex_workload) = Inl TransportError"
    by (simp add: priced_estimate_def)
  have n: "0 \<le> (0.5 * 0.04 + 0.5 * 0.005) * real_of_int (replicas ex_workload)"
    by (simp add: ex_workload_def)
  have r: "replicas ex_workload = 8" by (simp add: ex_workload_def)
  show ?thesis
    using fetch_current_costs_fallback [OF ex_cpu ex_mem n f, of None] ex_cpu ex_mem f
    by (simp add: r)
qed

text \<open>
  Claim C3 as stated (for every workload, never raises) fails: a memory request of 1Ti is
  not in the suffix table, \<open>int\<close> rejects it, and the \<open>ValueError\<close> is raised outside the
  \<open>try\<close> block.
\<close>

theorem fetch_current_costs_raises:
  "fetch_current_costs plain_builtins RequestFailed tebibyte_workload None = Inl ValueError"
  by (simp add: fetch_current_costs_def tebibyte_workload_def ex_workload_def ex_resources_def
        infer_instance_type_def parse_cpu_def parse_memory_gb_def parse_memory_def multipliers_def endswith_def plain_builtins_def
        plain_float_def plain_unsigned_float_def plain_int_def plain_nat_def digit_value_def Let_def)

section \<open>Properties of the recommender\<close>

lemma and_then_simps [simp]:
  "and_then (Inl e) f = Inl e" "and_then (Inr a) f = f a"
  by (simp_all add: and_then_def)



lemma assess_risk_result:
  "\<exists>ra. assess_risk w t mo = Inr ra \<and> score ra \<le> 0.85
        \<and> (level ra = LOW \<or> level ra = MEDIUM \<or> level ra = HIGH)"
  by (simp add: assess_risk_def make_RiskAssessment_def Let_def)

lemma assess_risk_not_critical:
  "assess_risk w t mo = Inr ra \<Longrightarrow> level ra = CRITICAL \<Longrightarrow> False"
  using assess_risk_result [of w t mo] by auto









lemmas plain_defs = plain_builtins_def plain_float_def plain_unsigned_float_def plain_int_def
  plain_nat_def digit_value_def plain_1f_def






















subsection \<open>An idle workload\<close>

lemma idle_fields:
  "current_resources idle_workload = idle_resources" "replicas idle_workload = 2"
  "provider idle_workload = ''aws''" "kind idle_workload = ''Deployment''"
  "cpu_utilization_pct idle_metrics = 0" "memory_utilization_pct idle_metrics = 0"
  "cpu_usage idle_metrics = idle_stats" "memory_usage idle_metrics = idle_stats"
  by (simp_all add: idle_workload_def ex_workload_def idle_metrics_def)

lemma idle_parse:
  "parse_cpu plain_builtins ''0'' = Inr 0" "parse_memory_gb plain_builtins ''0'' = Inr 0"
  "parse_cpu plain_builtins ''0m'' = Inr 0" "parse_memory_gb plain_builtins ''0Ki'' = Inr 0"
  by (simp_all add: parse_cpu_def parse_memory_gb_def parse_memory_def multipliers_def
        endswith_def plain_defs py_trunc_def)

lemma idle_fallback:
  "fallback_estimate plain_builtins ''0'' ''0'' n = Inr free_cost"
  "fallback_estimate plain_builtins ''0m'' ''0Ki'' n = Inr free_cost"
  by (simp_all add: fallback_estimate_def idle_parse make_CostBreakdown_def make_CostEstimate_def
        free_cost_def Let_def)

lemma idle_current:
  "fetch_current_costs plain_builtins RequestFailed idle_workload None = Inr free_cost"
  by (simp add: fetch_current_costs_def idle_fields idle_resources_def infer_instance_type_def
        idle_parse priced_estimate_def fallback_cost_estimate_def idle_fallback Let_def)

lemma idle_sized:
  "fst (right_size_resources plain_builtins idle_workload idle_metrics) =
     \<lparr>cpu_request = ''0m'', memory_request = ''0Ki'', cpu_limit = ''0m'', memory_limit = ''0Ki''\<rparr>"
  by (simp add: right_size_resources_def idle_fields idle_stats_def
        safety_margin_def format_cpu_def format_memory_def py_trunc_def str_of_int_def
        digits_of.simps digit_char_def Let_def)

lemma idle_right_size:
  "create_right_sizing_recommendation plain_builtins RequestFailed idle_workload idle_metrics
     free_cost = Inr None"
  by (simp add: create_right_sizing_recommendation_def idle_sized calculate_optimized_costs_def
        infer_instance_type_from_config_def idle_parse idle_fallback
        idle_fields idle_resources_def priced_estimate_def free_cost_def Let_def)

lemma idle_replicas:
  "create_replica_optimization_recommendation plain_builtins RequestFailed idle_workload
     idle_metrics free_cost = Inr None"
  by (simp add: create_replica_optimization_recommendation_def optimize_replicas_def
        replica_target_def idle_fields calculate_optimized_costs_def
        infer_instance_type_from_config_def resources_dict_def idle_resources_def
        idle_parse idle_fallback priced_estimate_def free_cost_def Let_def)

lemma idle_patterns:
  "detect_patterns idle_metrics =
     initial_patterns\<lparr>has_steady_pattern := True, recommended_scaling := ''downsize''\<rparr>"
  by (simp add: detect_patterns_def calculate_variance_def idle_fields idle_stats_def Let_def)

lemma idle_spot:
  "create_spot_instance_recommendation plain_builtins SpotRequestFailed idle_workload
     idle_metrics free_cost = Inr None"
  by (simp add: create_spot_instance_recommendation_def recommend_spot_instances_def
        idle_patterns initial_patterns_def idle_fields spot_vs_ondemand_def
        infer_instance_type_def idle_resources_def idle_parse zero_summary_def Let_def)

lemma idle_scheduled:
  "create_scheduled_scaling_recommendation idle_workload idle_metrics free_cost = Inr None"
  by (simp add: create_scheduled_scaling_recommendation_def
        detect_scheduled_scaling_opportunity_def idle_patterns initial_patterns_def Let_def)

lemma free_fields:
  "monthly free_cost = 0" "yearly free_cost = 0" "hourly free_cost = 0" "daily free_cost = 0"
  by (simp_all add: free_cost_def)

text \<open>
  The remove-unused recommendation is appended without a test on its savings: for a
  workload that requests no resources and whose pricing lookups all fail, the list holds
  exactly that recommendation, with \<open>monthly_savings\<close> 0.
\<close>

lemma idle_workload_keeps_free_recommendation:
  "map_sum id (map savings_view)
     (generate_recommendations plain_builtins offline_collaborators idle_workload idle_metrics 0.5)
   = Inr [(REMOVE_UNUSED, 0, 0)]"
proof -
  have c: "reply_current offline_collaborators = RequestFailed"
    "reply_right_size offline_collaborators = RequestFailed"
    "reply_replica offline_collaborators = RequestFailed"
    "reply_spot offline_collaborators = SpotRequestFailed"
    by (simp_all add: offline_collaborators_def)
  have u: "detect_unused_resources idle_metrics 5"
    by (simp add: detect_unused_resources_def idle_fields)
  show ?thesis
    unfolding generate_recommendations_def c
    by (simp add: idle_current u idle_right_size idle_replicas idle_spot idle_scheduled
          create_unused_resource_recommendation_def make_RiskAssessment_def
          make_OptimizationRecommendation_def admit_def savings_view_def free_fields
          and_then_simps Let_def)
qed



section \<open>Properties of apply and rollback\<close>

lemma store_original_state_result:
  "snd (store_original_state rc now n k ns d cl) =
     cl\<lparr>redis_data := (if rc then (redis_data cl)(redis_key ns k n \<mapsto> snapshot_of now n k ns d)
                         else redis_data cl),
        config_maps := (config_maps cl)((ns, configmap_name n) \<mapsto> snapshot_of now n k ns d)\<rparr>"
  by (simp add: store_original_state_def snapshot_of_def Let_def)

lemma apply_optimization_deployment:
  assumes "deployments cl (ns, n) = Some d"
  shows "apply_optimization rc now n ''Deployment'' ns cfg False cl =
     (True,
      cl\<lparr>redis_data := (if rc then (redis_data cl)(redis_key ns ''Deployment'' n
                                          \<mapsto> snapshot_of now n ''Deployment'' ns d)
                         else redis_data cl),
         config_maps := (config_maps cl)((ns, configmap_name n)
                                          \<mapsto> snapshot_of now n ''Deployment'' ns d),
         deployments := (deployments cl)((ns, n) \<mapsto> with_optimization now cfg d)\<rparr>)"
  using assms
  by (simp add: apply_optimization_def get_workload_def store_original_state_result
        apply_deployment_optimization_def Let_def)




lemma extract_resources_first:
  "containers d = c # cs \<Longrightarrow>
     extract_resources d ''cpu_request''
       = (case resources c of None \<Rightarrow> None
          | Some rr \<Rightarrow> if or_empty (requests rr) = Map.empty then None
                        else Some (get_or (or_empty (requests rr)) ''cpu'' ''0''))"
  "containers d = c # cs \<Longrightarrow>
     extract_resources d ''memory_request''
       = (case resources c of None \<Rightarrow> None
          | Some rr \<Rightarrow> if or_empty (requests rr) = Map.empty then None
                        else Some (get_or (or_empty (requests rr)) ''memory'' ''0''))"
  "containers d = c # cs \<Longrightarrow>
     extract_resources d ''cpu_limit''
       = (case resources c of None \<Rightarrow> None
          | Some rr \<Rightarrow> if or_empty (limits rr) = Map.empty then None
                        else Some (get_or (or_empty (limits rr)) ''cpu'' ''0''))"
  "containers d = c # cs \<Longrightarrow>
     extract_resources d ''memory_limit''
       = (case resources c of None \<Rightarrow> None
          | Some rr \<Rightarrow> if or_empty (limits rr) = Map.empty then None
                        else Some (get_or (or_empty (limits rr)) ''memory'' ''0''))"
  by (auto simp add: extract_resources_def or_empty_def Let_def split: option.splits)















section \<open>Properties of the periodic check\<close>

text \<open>
  Claim C2 at a concrete tick. The declaration has autoApply true, dryRun false,
  minConfidence 0.7 and maxRiskLevel MEDIUM; the recommendation has confidence 0.85 and
  risk level low, written as the optimizer API writes it (\<open>low\<close>). The table
  \<open>risk_levels\<close> has no key \<open>low\<close>, the level counts as 4, and the check leaves the phase
  Ready and the cluster untouched. With the level spelled \<open>LOW\<close> the same tick applies
  the optimization, counts it and adds its savings.
\<close>

theorem tick_low_risk_not_applied:
  "periodic_optimization_check True tick_time auto_declaration ''default'' fresh_status
     (Some low_risk_payload) web_cluster
   = (empty_patch
        \<lparr>currentRecommendation :=
           Some \<lparr>cr_optimizationType = Some ''right_size_cpu'', cr_currentCost = 200,
                 cr_optimizedCost = 80, cr_monthlySavings = 120, cr_confidenceScore = 0.85,
                 cr_riskLevel = ''low'', cr_changes = Some right_size_config\<rparr>,
         lastAnalysis := Some tick_time,
         phase := Some ''Ready'', message := Some (NotApplied 0.85 ''low'')\<rparr>,
      [], web_cluster)
   \<and> fst (periodic_optimization_check True tick_time auto_declaration ''default'' fresh_status
            (Some (low_risk_payload\<lparr>payload_risk_level := Some ''LOW''\<rparr>)) web_cluster)
     = empty_patch
        \<lparr>currentRecommendation :=
           Some \<lparr>cr_optimizationType = Some ''right_size_cpu'', cr_currentCost = 200,
                 cr_optimizedCost = 80, cr_monthlySavings = 120, cr_confidenceScore = 0.85,
                 cr_riskLevel = ''LOW'', cr_changes = Some right_size_config\<rparr>,
         lastAnalysis := Some tick_time,
         phase := Some ''Applied'', message := Some AppliedSuccessfully,
         lastApplied := Some tick_time, patch_appliedOptimizations := Some 1,
         patch_totalSavings := Some 120\<rparr>"
proof -
  obtain cl' where a: "apply_optimization True tick_time ''web'' ''Deployment'' ''default''
                         right_size_config False web_cluster = (True, cl')"
    using apply_optimization_deployment [of web_cluster "''default''" "''web''" web_deployment]
    by (simp add: web_cluster_def)
  have "periodic_optimization_check True tick_time auto_declaration ''default'' fresh_status
     (Some low_risk_payload) web_cluster
   = (empty_patch
        \<lparr>currentRecommendation :=
           Some \<lparr>cr_optimizationType = Some ''right_size_cpu'', cr_currentCost = 200,
                 cr_optimizedCost = 80, cr_monthlySavings = 120, cr_confidenceScore = 0.85,
                 cr_riskLevel = ''low'', cr_changes = Some right_size_config\<rparr>,
         lastAnalysis := Some tick_time,
         phase := Some ''Ready'', message := Some (NotApplied 0.85 ''low'')\<rparr>,
      [], web_cluster)"
    by (simp add: periodic_optimization_check_def auto_declaration_def fresh_status_def
          low_risk_payload_def risk_level_value_def value_or_def get_or_def risk_levels_def
          Let_def)
  moreover have "fst (periodic_optimization_check True tick_time auto_declaration ''default''
            fresh_status (Some (low_risk_payload\<lparr>payload_risk_level := Some ''LOW''\<rparr>))
            web_cluster)
     = empty_patch
        \<lparr>currentRecommendation :=
           Some \<lparr>cr_optimizationType = Some ''right_size_cpu'', cr_currentCost = 200,
                 cr_optimizedCost = 80, cr_monthlySavings = 120, cr_confidenceScore = 0.85,
                 cr_riskLevel = ''LOW'', cr_changes = Some right_size_config\<rparr>,
         lastAnalysis := Some tick_time,
         phase := Some ''Applied'', message := Some AppliedSuccessfully,
         lastApplied := Some tick_time, patch_appliedOptimizations := Some 1,
         patch_totalSavings := Some 120\<rparr>"
    by (simp add: periodic_optimization_check_def auto_declaration_def fresh_status_def
          low_risk_payload_def value_or_def get_or_def risk_levels_def a Let_def)
  ultimately show ?thesis by blast
qed

end
